theory Spec2Isabelle
  imports Complex_Main "HOL-Library.Sublist"
begin

section \<open>Values exchanged with the outside world\<close>

text \<open>
  The script talks to two HTTP services and reads their replies as decoded JSON.
  A decoded JSON document is a Python value built from \<open>None\<close>, booleans, numbers,
  strings, lists and dictionaries. Numbers are kept as exact rationals: the rounding of
  binary floating point is not part of this development. A dictionary is an
  association list; a key is looked up from the left.
\<close>

datatype json =
    JNull
  | JBool bool
  | JNum rat
  | JStr string
  | JArr "json list"
  | JObj "(string \<times> json) list"

text \<open>
  Every exception the script can meet is a value. \<open>HTTPError\<close> is what
  \<open>Response.raise_for_status\<close> raises and \<open>ConnectionFailure\<close> stands for the
  exceptions \<open>requests.get\<close> and \<open>requests.post\<close> raise themselves (time-out, refused
  connection, ...); in the \<open>requests\<close> library both are subclasses of
  \<open>requests.exceptions.RequestException\<close>. The others are not.
\<close>

datatype error =
    HTTPError int
  | ConnectionFailure
  | FetchExhausted
  | SleepValueError
  | MissingApiKey
  | InvalidResponseStructure json
  | BodyDecodeError
  | JSONDecodeError
  | IndexError
  | KeyError
  | TypeError
  | AttributeError
  | UnboundLocalError
  | FormatError
  | DataFrameError

fun is_request_exception :: "error \<Rightarrow> bool" where
  "is_request_exception (HTTPError st) = True"
| "is_request_exception ConnectionFailure = True"
| "is_request_exception e = False"

datatype http_method = GET | POST

record request =
  verb :: http_method
  url :: string
  json_payload :: "json option"

text \<open>
  A reply carries its status code and what \<open>Response.json()\<close> would give: the decoded
  body, or nothing when the body is not JSON.
\<close>

record response =
  status_code :: int
  body :: "json option"

datatype outcome = Replied response | Failed

text \<open>
  The network is a parameter: it decides the outcome of the \<open>n\<close>-th request the
  process issues, given the request. This makes every run deterministic and lets a
  theorem quantify over all behaviours of the remote services.
\<close>

type_synonym net = "nat \<Rightarrow> request \<Rightarrow> outcome"

definition always :: "outcome \<Rightarrow> net" where
  "always oc n rq = oc"

definition script :: "outcome list \<Rightarrow> outcome \<Rightarrow> net" where
  "script ocs dflt n rq = (if n < length ocs then ocs ! n else dflt)"

text \<open>
  A number as pandas and NumPy compute with it: a finite value, one of the two
  infinities, or NaN. Finite values are exact rationals, so rounding is not modelled,
  and the sign of a zero is not kept.
\<close>

datatype fval = Fin rat | PInf | NInf | NaN

text \<open>What the process prints, by kind of message.\<close>

datatype message =
    RetryableError int int
  | FetchFailed error
  | FetchingMarketData string
  | MarketDataError error
  | FetchingNews string
  | NewsWarning error
  | ConsultingAnalyst
  | InvalidJson
  | RawResponse json
  | AnalysisError error
  | NoInput
  | Analyzing string
  | TechnicalHeader
  | CurrentPriceLine json
  | SmaLine fval
  | RsiLine fval
  | ReportHeader
  | AnalysisLine json
  | RecommendationLine json
  | ConfidenceLine json
  | RunError error

datatype event = Requested request | Slept int | Printed message

text \<open>
  The state threaded through the program: how many requests were issued so far and
  the chronological record of requests, sleeps and printed messages.
\<close>

record world =
  served :: nat
  journal :: "event list"

definition emit :: "event \<Rightarrow> world \<Rightarrow> world" where
  "emit ev w = w\<lparr>journal := journal w @ [ev]\<rparr>"

definition print :: "message \<Rightarrow> world \<Rightarrow> world" where
  "print m w = emit (Printed m) w"

text \<open>\<open>time.sleep\<close> raises \<open>ValueError\<close> on a negative length and sleeps otherwise.\<close>

definition sleep :: "int \<Rightarrow> world \<Rightarrow> (error + unit) \<times> world" where
  "sleep d w = (if d < 0 then (Inl SleepValueError, w) else (Inr (), emit (Slept d) w))"

text \<open>Issuing a request records it and consumes one answer of the network.\<close>

definition send :: "net \<Rightarrow> request \<Rightarrow> world \<Rightarrow> outcome \<times> world" where
  "send nw rq w = (nw (served w) rq, (emit (Requested rq) w)\<lparr>served := Suc (served w)\<rparr>)"

section \<open>Strings\<close>

text \<open>
  Strings are ASCII. \<open>str.upper\<close> and \<open>str.lower\<close> exchange the 26 letters and leave
  every other character alone.
\<close>

definition lowercase_letters :: string where
  "lowercase_letters = ''abcdefghijklmnopqrstuvwxyz''"

definition uppercase_letters :: string where
  "uppercase_letters = ''ABCDEFGHIJKLMNOPQRSTUVWXYZ''"

definition upper_char :: "char \<Rightarrow> char" where
  "upper_char c = (case map_of (zip lowercase_letters uppercase_letters) c of
                     Some u \<Rightarrow> u | None \<Rightarrow> c)"

definition lower_char :: "char \<Rightarrow> char" where
  "lower_char c = (case map_of (zip uppercase_letters lowercase_letters) c of
                     Some l \<Rightarrow> l | None \<Rightarrow> c)"

definition upper :: "string \<Rightarrow> string" where
  "upper s = map upper_char s"

definition lower :: "string \<Rightarrow> string" where
  "lower s = map lower_char s"

text \<open>Two strings are equal case-insensitively when they differ at most in letter case.\<close>

definition same_ignoring_case :: "string \<Rightarrow> string \<Rightarrow> bool" where
  "same_ignoring_case a b = (lower a = lower b)"

section \<open>The retrying HTTP client\<close>

text \<open>
  \<open>Response.raise_for_status\<close> of the \<open>requests\<close> library raises \<open>HTTPError\<close> for a
  status from 400 to 599 and does nothing otherwise.
\<close>

definition raise_for_status :: "response \<Rightarrow> error + unit" where
  "raise_for_status r =
     (if 400 \<le> status_code r \<and> status_code r < 600 then Inl (HTTPError (status_code r))
      else Inr ())"

text \<open>The request of one attempt (source lines 47 to 50).\<close>

definition make_request :: "string \<Rightarrow> string \<Rightarrow> json option \<Rightarrow> request" where
  "make_request u method payload =
     (if upper method = ''POST''
      then \<lparr>verb = POST, url = u, json_payload = payload\<rparr>
      else \<lparr>verb = GET, url = u, json_payload = None\<rparr>)"

text \<open>
  The \<open>except requests.exceptions.RequestException\<close> block (lines 62 to 67). The
  argument \<open>left\<close> counts the iterations of the loop that remain after the current one,
  so \<open>left = 0\<close> is the test \<open>i == retries - 1\<close>. The block either re-raises or
  sleeps and doubles the delay; \<open>Inr d\<close> is the delay for the next iteration.
\<close>

definition on_request_exception :: "error \<Rightarrow> nat \<Rightarrow> int \<Rightarrow> world \<Rightarrow> (error + int) \<times> world" where
  "on_request_exception e left delay w =
     (if left = 0 then (Inl e, print (FetchFailed e) w)
      else case sleep delay w of
             (Inl e', w') \<Rightarrow> (Inl e', w')
           | (Inr u, w') \<Rightarrow> (Inr (delay * 2), w'))"

text \<open>
  One iteration of the \<open>for\<close> loop (lines 46 to 67). \<open>Inl\<close> leaves the function with
  an exception, \<open>Inr (Inl r)\<close> returns the response \<open>r\<close>, and \<open>Inr (Inr d)\<close> goes on
  to the next iteration with delay \<open>d\<close>. An \<open>HTTPError\<close> raised by
  \<open>raise_for_status\<close> inside the \<open>try\<close> is a \<open>RequestException\<close>, so it reaches the
  same \<open>except\<close> block as a failure of the request itself.
\<close>

definition attempt ::
  "net \<Rightarrow> request \<Rightarrow> nat \<Rightarrow> int \<Rightarrow> world \<Rightarrow> (error + (response + int)) \<times> world" where
  "attempt nw rq left delay w =
     (case send nw rq w of
        (Failed, w1) \<Rightarrow>
          (case on_request_exception ConnectionFailure left delay w1 of
             (Inl e, w2) \<Rightarrow> (Inl e, w2)
           | (Inr d, w2) \<Rightarrow> (Inr (Inr d), w2))
      | (Replied r, w1) \<Rightarrow>
          if status_code r = 429 \<or> (status_code r \<ge> 500 \<and> status_code r \<le> 599) then
            (case sleep delay (print (RetryableError (status_code r) delay) w1) of
               (Inl e, w2) \<Rightarrow> (Inl e, w2)
             | (Inr u, w2) \<Rightarrow> (Inr (Inr (delay * 2)), w2))
          else
            (case raise_for_status r of
               Inl e \<Rightarrow>
                 (case on_request_exception e left delay w1 of
                    (Inl e', w2) \<Rightarrow> (Inl e', w2)
                  | (Inr d, w2) \<Rightarrow> (Inr (Inr d), w2))
             | Inr u \<Rightarrow> (Inr (Inl r), w1)))"

text \<open>
  The loop \<open>for i in range(retries)\<close>, by recursion on the number of iterations that
  remain; when none remains the function raises the generic exception of line 68.
\<close>

fun backoff_loop :: "net \<Rightarrow> request \<Rightarrow> nat \<Rightarrow> int \<Rightarrow> world \<Rightarrow> (error + response) \<times> world" where
  "backoff_loop nw rq 0 delay w = (Inl FetchExhausted, w)"
| "backoff_loop nw rq (Suc left) delay w =
     (case attempt nw rq left delay w of
        (Inl e, w') \<Rightarrow> (Inl e, w')
      | (Inr (Inl r), w') \<Rightarrow> (Inr r, w')
      | (Inr (Inr d), w') \<Rightarrow> backoff_loop nw rq left d w')"

definition fetch_with_backoff ::
  "net \<Rightarrow> string \<Rightarrow> string \<Rightarrow> json option \<Rightarrow> int \<Rightarrow> int \<Rightarrow> world \<Rightarrow> (error + response) \<times> world" where
  "fetch_with_backoff nw u method payload retries delay w =
     backoff_loop nw (make_request u method payload) (nat retries) delay w"

text \<open>The sleeps and the requests recorded in a journal, in order.\<close>

fun sleeps :: "event list \<Rightarrow> int list" where
  "sleeps [] = []"
| "sleeps (Slept d # evs) = d # sleeps evs"
| "sleeps (ev # evs) = sleeps evs"

fun requests :: "event list \<Rightarrow> request list" where
  "requests [] = []"
| "requests (Requested rq # evs) = rq # requests evs"
| "requests (ev # evs) = requests evs"

definition retryable :: "outcome \<Rightarrow> bool" where
  "retryable oc =
     (case oc of
        Failed \<Rightarrow> True
      | Replied r \<Rightarrow> status_code r = 429 \<or> (500 \<le> status_code r \<and> status_code r \<le> 599))"

definition fresh :: world where
  "fresh = \<lparr>served = 0, journal = []\<rparr>"

text \<open>The events a call appended to the journal.\<close>

definition since :: "world \<Rightarrow> world \<Rightarrow> event list" where
  "since w w' = drop (length (journal w)) (journal w')"

text \<open>The journal without the printed messages: requests and sleeps only.\<close>

fun timeline :: "event list \<Rightarrow> event list" where
  "timeline [] = []"
| "timeline (Printed m # evs) = timeline evs"
| "timeline (ev # evs) = ev # timeline evs"

text \<open>
  \<open>N\<close> rounds of a request followed by a sleep, the sleep of round \<open>k\<close> (from 0)
  lasting \<open>d * 2 ^ k\<close>.
\<close>

definition retry_rounds :: "request \<Rightarrow> int \<Rightarrow> nat \<Rightarrow> event list" where
  "retry_rounds rq d N = concat (map (\<lambda>k. [Requested rq, Slept (d * 2 ^ k)]) [0..<N])"

section \<open>Python values\<close>

text \<open>Running a step that may raise, then the next one on its result.\<close>

definition and_then :: "error + 'a \<Rightarrow> ('a \<Rightarrow> error + 'b) \<Rightarrow> error + 'b" where
  "and_then r f = (case r of Inl e \<Rightarrow> Inl e | Inr v \<Rightarrow> f v)"

text \<open>\<open>v.get(k, dflt)\<close>: only a dictionary has the method.\<close>

fun dict_get :: "json \<Rightarrow> string \<Rightarrow> json \<Rightarrow> error + json" where
  "dict_get (JObj kvs) k dflt = Inr (case map_of kvs k of Some v \<Rightarrow> v | None \<Rightarrow> dflt)"
| "dict_get v k dflt = Inl AttributeError"

text \<open>\<open>v[0]\<close>. The keys of a decoded JSON dictionary are strings, never \<open>0\<close>.\<close>

fun first_item :: "json \<Rightarrow> error + json" where
  "first_item (JArr []) = Inl IndexError"
| "first_item (JArr (x # xs)) = Inr x"
| "first_item (JStr []) = Inl IndexError"
| "first_item (JStr (c # cs)) = Inr (JStr [c])"
| "first_item (JObj kvs) = Inl KeyError"
| "first_item v = Inl TypeError"

text \<open>\<open>v[k]\<close> for a string \<open>k\<close>.\<close>

fun item :: "json \<Rightarrow> string \<Rightarrow> error + json" where
  "item (JObj kvs) k = (case map_of kvs k of Some v \<Rightarrow> Inr v | None \<Rightarrow> Inl KeyError)"
| "item v k = Inl TypeError"

text \<open>
  \<open>k in v\<close> for a string \<open>k\<close>: a key of a dictionary, an element of a list, a
  substring of a string; the other values are not containers.
\<close>

fun contains :: "json \<Rightarrow> string \<Rightarrow> error + bool" where
  "contains (JObj kvs) k = Inr (k \<in> set (map fst kvs))"
| "contains (JArr xs) k = Inr (JStr k \<in> set xs)"
| "contains (JStr s) k = Inr (sublist k s)"
| "contains v k = Inl TypeError"

text \<open>The truth value of a Python value, as \<open>if v:\<close> tests it.\<close>

fun truthy :: "json \<Rightarrow> bool" where
  "truthy JNull = False"
| "truthy (JBool b) = b"
| "truthy (JNum r) = (r \<noteq> 0)"
| "truthy (JStr s) = (s \<noteq> [])"
| "truthy (JArr xs) = (xs \<noteq> [])"
| "truthy (JObj kvs) = (kvs \<noteq> [])"

text \<open>\<open>Response.json()\<close>.\<close>

definition response_json :: "response \<Rightarrow> error + json" where
  "response_json r = (case body r of None \<Rightarrow> Inl BodyDecodeError | Some j \<Rightarrow> Inr j)"

section \<open>Arithmetic of pandas series\<close>

fun fneg :: "fval \<Rightarrow> fval" where
  "fneg (Fin a) = Fin (- a)"
| "fneg PInf = NInf"
| "fneg NInf = PInf"
| "fneg NaN = NaN"

fun fadd :: "fval \<Rightarrow> fval \<Rightarrow> fval" where
  "fadd (Fin a) (Fin b) = Fin (a + b)"
| "fadd NaN y = NaN"
| "fadd x NaN = NaN"
| "fadd PInf NInf = NaN"
| "fadd NInf PInf = NaN"
| "fadd PInf y = PInf"
| "fadd NInf y = NInf"
| "fadd x PInf = PInf"
| "fadd x NInf = NInf"

definition fsub :: "fval \<Rightarrow> fval \<Rightarrow> fval" where
  "fsub x y = fadd x (fneg y)"

text \<open>
  Division as NumPy does it on floats: no exception, a non-zero value over zero is an
  infinity and zero over zero is NaN.
\<close>

fun fdiv :: "fval \<Rightarrow> fval \<Rightarrow> fval" where
  "fdiv (Fin a) (Fin b) =
     (if b \<noteq> 0 then Fin (a / b) else if a = 0 then NaN else if 0 < a then PInf else NInf)"
| "fdiv NaN y = NaN"
| "fdiv x NaN = NaN"
| "fdiv (Fin a) y = Fin 0"
| "fdiv PInf (Fin b) = (if 0 \<le> b then PInf else NInf)"
| "fdiv NInf (Fin b) = (if 0 \<le> b then NInf else PInf)"
| "fdiv x y = NaN"

text \<open>Comparisons with NaN are false.\<close>

fun fless :: "fval \<Rightarrow> fval \<Rightarrow> bool" where
  "fless (Fin a) (Fin b) = (a < b)"
| "fless NaN y = False"
| "fless x NaN = False"
| "fless x PInf = (x \<noteq> PInf)"
| "fless NInf y = (y \<noteq> NInf)"
| "fless x y = False"

definition fsum :: "fval list \<Rightarrow> fval" where
  "fsum xs = foldr fadd xs (Fin 0)"

definition mean :: "fval list \<Rightarrow> fval" where
  "mean xs = fdiv (fsum xs) (Fin (of_nat (length xs)))"

text \<open>The \<open>n\<close> values of a series that end at position \<open>i\<close>.\<close>

definition window :: "nat \<Rightarrow> 'a list \<Rightarrow> nat \<Rightarrow> 'a list" where
  "window n xs i = take n (drop (Suc i - n) xs)"

text \<open>
  \<open>s.rolling(window=n).mean()\<close>: NaN at the first \<open>n - 1\<close> positions, then the mean
  of the \<open>n\<close> trailing values, which is NaN as soon as one of them is.
\<close>

definition rolling_mean :: "nat \<Rightarrow> fval list \<Rightarrow> fval list" where
  "rolling_mean n xs = map (\<lambda>i. if Suc i < n then NaN else mean (window n xs i)) [0..<length xs]"

text \<open>\<open>s.diff()\<close>: NaN first, then the difference to the previous value.\<close>

definition diff :: "fval list \<Rightarrow> fval list" where
  "diff xs = map (\<lambda>i. if i = 0 then NaN else fsub (xs ! i) (xs ! (i - 1))) [0..<length xs]"

text \<open>\<open>s.where(cond, other)\<close> keeps a value where the condition holds.\<close>

definition series_where :: "(fval \<Rightarrow> bool) \<Rightarrow> fval \<Rightarrow> fval list \<Rightarrow> fval list" where
  "series_where cond other xs = map (\<lambda>x. if cond x then x else other) xs"

text \<open>\<open>s.dropna().iloc[-1]\<close>: the last value that is not NaN, if there is one.\<close>

definition dropna :: "fval list \<Rightarrow> fval list" where
  "dropna xs = filter (\<lambda>x. x \<noteq> NaN) xs"

definition iloc_last :: "'a list \<Rightarrow> error + 'a" where
  "iloc_last xs = (if xs = [] then Inl IndexError else Inr (last xs))"

section \<open>Market data and indicators\<close>

text \<open>Line 142: the 20-day simple moving average.\<close>

definition sma_20 :: "fval list \<Rightarrow> fval list" where
  "sma_20 closes = rolling_mean 20 closes"

text \<open>Lines 145 to 149: the 14-day relative-strength index.\<close>

definition gain_14 :: "fval list \<Rightarrow> fval list" where
  "gain_14 closes = rolling_mean 14 (series_where (\<lambda>x. fless (Fin 0) x) (Fin 0) (diff closes))"

definition loss_14 :: "fval list \<Rightarrow> fval list" where
  "loss_14 closes =
     rolling_mean 14 (map fneg (series_where (\<lambda>x. fless x (Fin 0)) (Fin 0) (diff closes)))"

definition index_of_rs :: "fval \<Rightarrow> fval" where
  "index_of_rs rs = fsub (Fin 100) (fdiv (Fin 100) (fadd (Fin 1) rs))"

definition rsi_14 :: "fval list \<Rightarrow> fval list" where
  "rsi_14 closes = map (\<lambda>(g, l). index_of_rs (fdiv g l)) (zip (gain_14 closes) (loss_14 closes))"

text \<open>Lines 152 and 153.\<close>

definition latest_sma_of :: "fval list \<Rightarrow> error + fval" where
  "latest_sma_of closes = iloc_last (dropna (sma_20 closes))"

definition latest_rsi_of :: "fval list \<Rightarrow> error + fval" where
  "latest_rsi_of closes = iloc_last (dropna (rsi_14 closes))"

text \<open>
  Line 136, \<open>pd.DataFrame(prices, columns=['timestamp', 'close'])\<close>, restricted to its
  \<open>close\<close> column. The table the provider documents is a list of rows of two numbers;
  a \<open>null\<close> cell becomes NaN. Pandas is not part of the repository: what it does with
  any other value is not modelled, and \<open>DataFrameError\<close> stands for it.
\<close>

fun cell :: "json \<Rightarrow> fval option" where
  "cell (JNum r) = Some (Fin r)"
| "cell JNull = Some NaN"
| "cell v = None"

fun row_close :: "json \<Rightarrow> fval option" where
  "row_close (JArr [t, c]) = (case cell t of None \<Rightarrow> None | Some ts \<Rightarrow> cell c)"
| "row_close v = None"

fun close_column :: "json \<Rightarrow> error + fval list" where
  "close_column (JArr rows) =
     (if list_all (\<lambda>r. row_close r \<noteq> None) rows then Inr (map (\<lambda>r. the (row_close r)) rows)
      else Inl DataFrameError)"
| "close_column v = Inl DataFrameError"

definition COINGECKO_BASE_URL :: string where
  "COINGECKO_BASE_URL = ''https://api.coingecko.com/api/v3''"

definition history_url :: "string \<Rightarrow> string" where
  "history_url crypto_id =
     COINGECKO_BASE_URL @ ''/coins/'' @ crypto_id @
       ''/market_chart?vs_currency=usd&days=90&interval=daily''"

definition price_url :: "string \<Rightarrow> string" where
  "price_url crypto_id =
     COINGECKO_BASE_URL @ ''/simple/price?ids='' @ crypto_id @ ''&vs_currencies=usd''"

record tech_data =
  current_price :: json
  latest_sma :: fval
  latest_rsi :: fval

text \<open>Lines 136 to 159, once both documents are there.\<close>

definition indicators :: "string \<Rightarrow> json \<Rightarrow> json \<Rightarrow> error + tech_data" where
  "indicators crypto_id history_data price_data =
     and_then (item history_data ''prices'') (\<lambda>prices.
     and_then (close_column prices) (\<lambda>closes.
     and_then (latest_sma_of closes) (\<lambda>sma.
     and_then (latest_rsi_of closes) (\<lambda>rsi.
     and_then (item price_data crypto_id) (\<lambda>entry.
     and_then (item entry ''usd'') (\<lambda>usd.
       Inr \<lparr>current_price = usd, latest_sma = sma, latest_rsi = rsi\<rparr>))))))"

text \<open>The body of the \<open>try\<close> block, lines 125 to 159.\<close>

definition market_data_steps :: "net \<Rightarrow> string \<Rightarrow> world \<Rightarrow> (error + tech_data) \<times> world" where
  "market_data_steps nw crypto_id w =
     (case fetch_with_backoff nw (history_url crypto_id) ''GET'' None 3 2 w of
        (Inl e, w1) \<Rightarrow> (Inl e, w1)
      | (Inr history_response, w1) \<Rightarrow>
          (case response_json history_response of
             Inl e \<Rightarrow> (Inl e, w1)
           | Inr history_data \<Rightarrow>
               (case fetch_with_backoff nw (price_url crypto_id) ''GET'' None 3 2 w1 of
                  (Inl e, w2) \<Rightarrow> (Inl e, w2)
                | (Inr price_response, w2) \<Rightarrow>
                    (case response_json price_response of
                       Inl e \<Rightarrow> (Inl e, w2)
                     | Inr price_data \<Rightarrow> (indicators crypto_id history_data price_data, w2)))))"

text \<open>Lines 116 to 162: any exception is printed and raised again.\<close>

definition fetch_market_data :: "net \<Rightarrow> string \<Rightarrow> world \<Rightarrow> (error + tech_data) \<times> world" where
  "fetch_market_data nw crypto_id w =
     (case market_data_steps nw crypto_id (print (FetchingMarketData crypto_id) w) of
        (Inl e, w') \<Rightarrow> (Inl e, print (MarketDataError e) w')
      | (Inr t, w') \<Rightarrow> (Inr t, w'))"

text \<open>
  The rise and the fall of the price at step \<open>j\<close>; position 0 has no previous price
  and counts for nothing in either.
\<close>

definition up_move :: "rat list \<Rightarrow> nat \<Rightarrow> rat" where
  "up_move cs j = (if j = 0 then 0 else max (cs ! j - cs ! (j - 1)) 0)"

definition down_move :: "rat list \<Rightarrow> nat \<Rightarrow> rat" where
  "down_move cs j = (if j = 0 then 0 else max (cs ! (j - 1) - cs ! j) 0)"

section \<open>The relative-strength index as the specification words it\<close>

text \<open>
  The per-step price delta; the average, over the trailing 14 steps that end at
  position \<open>i\<close>, of the positive deltas (a step that is not a rise counts as 0) and of
  the magnitudes of the negative deltas; their ratio; and the index
  \<open>100 - 100 / (1 + ratio)\<close>. Fourteen steps need fifteen prices, so the first position
  with a value is 14. A value is defined when it is not NaN, and the value kept is the
  most recent defined one.
\<close>

definition price_delta :: "rat list \<Rightarrow> nat \<Rightarrow> rat" where
  "price_delta cs j = cs ! j - cs ! (j - 1)"

definition average_gain :: "rat list \<Rightarrow> nat \<Rightarrow> rat" where
  "average_gain cs i =
     sum_list (map (\<lambda>j. if 0 < price_delta cs j then price_delta cs j else 0) [i - 13..<Suc i]) / 14"

definition average_loss :: "rat list \<Rightarrow> nat \<Rightarrow> rat" where
  "average_loss cs i =
     sum_list (map (\<lambda>j. if price_delta cs j < 0 then \<bar>price_delta cs j\<bar> else 0) [i - 13..<Suc i]) / 14"

definition relative_strength :: "rat list \<Rightarrow> nat \<Rightarrow> fval" where
  "relative_strength cs i = fdiv (Fin (average_gain cs i)) (Fin (average_loss cs i))"

definition strength_index :: "rat list \<Rightarrow> nat \<Rightarrow> fval" where
  "strength_index cs i = fsub (Fin 100) (fdiv (Fin 100) (fadd (Fin 1) (relative_strength cs i)))"

definition defined_indexes :: "rat list \<Rightarrow> fval list" where
  "defined_indexes cs = filter (\<lambda>v. v \<noteq> NaN) (map (strength_index cs) [14..<length cs])"

definition most_recent_index :: "rat list \<Rightarrow> fval option" where
  "most_recent_index cs =
     (if defined_indexes cs = [] then None else Some (last (defined_indexes cs)))"

section \<open>The language-model call\<close>

definition GEMINI_API_BASE :: string where
  "GEMINI_API_BASE =
     ''https://generativelanguage.googleapis.com/v1beta/models/gemini-2.5-flash-preview-09-2025:generateContent''"

definition text_parts :: "json \<Rightarrow> json" where
  "text_parts t = JObj [(''parts'', JArr [JObj [(''text'', t)]])]"

text \<open>
  Lines 88 to 100. A prompt is a JSON value here, so that a prompt built from numbers
  need not be rendered; an optional argument is left out when it is \<open>None\<close> or falsy.
\<close>

definition gemini_payload :: "json \<Rightarrow> string option \<Rightarrow> json option \<Rightarrow> json option \<Rightarrow> json" where
  "gemini_payload user_prompt system_prompt tools schema =
     JObj ([(''contents'', JArr [text_parts user_prompt])]
        @ (case tools of None \<Rightarrow> []
           | Some t \<Rightarrow> if truthy t then [(''tools'', t)] else [])
        @ (case system_prompt of None \<Rightarrow> []
           | Some sp \<Rightarrow> if sp \<noteq> [] then [(''systemInstruction'', text_parts (JStr sp))] else [])
        @ (case schema of None \<Rightarrow> []
           | Some sc \<Rightarrow>
               if truthy sc
               then [(''generationConfig'',
                      JObj [(''responseMimeType'', JStr ''application/json''),
                            (''responseSchema'', sc)])]
               else []))"

text \<open>Lines 105 to 111: from the decoded reply to the part that holds the text.\<close>

definition content_part_of :: "json \<Rightarrow> error + json" where
  "content_part_of result =
     and_then (dict_get result ''candidates'' (JArr [JObj []])) (\<lambda>candidates.
     and_then (first_item candidates) (\<lambda>candidate.
     and_then (dict_get candidate ''content'' (JObj [])) (\<lambda>content.
     and_then (dict_get content ''parts'' (JArr [JObj []])) (\<lambda>parts.
     and_then (first_item parts) (\<lambda>content_part.
     and_then (contains content_part ''text'') (\<lambda>has_text.
       if \<not> has_text then Inl (InvalidResponseStructure result) else Inr content_part))))))"

text \<open>
  Lines 71 to 111. The key is the global \<open>API_KEY\<close>, here an argument; the fetch uses
  the default three attempts and two seconds.
\<close>

definition call_gemini_api ::
  "net \<Rightarrow> string option \<Rightarrow> json \<Rightarrow> string option \<Rightarrow> json option \<Rightarrow> json option \<Rightarrow> world
     \<Rightarrow> (error + json) \<times> world" where
  "call_gemini_api nw api_key user_prompt system_prompt tools schema w =
     (case api_key of
        None \<Rightarrow> (Inl MissingApiKey, w)
      | Some key \<Rightarrow>
          if key = [] then (Inl MissingApiKey, w)
          else
            (case fetch_with_backoff nw (GEMINI_API_BASE @ ''?key='' @ key) ''POST''
                    (Some (gemini_payload user_prompt system_prompt tools schema)) 3 2 w of
               (Inl e, w') \<Rightarrow> (Inl e, w')
             | (Inr r, w') \<Rightarrow> (and_then (response_json r) content_part_of, w')))"

section \<open>News sentiment\<close>

definition news_prompt :: "string \<Rightarrow> json" where
  "news_prompt crypto_name =
     JStr (''Find the top 3-5 recent news headlines for '' @ crypto_name @
           '' and provide a one-sentence summary of the overall sentiment (positive, negative, or neutral).'')"

definition search_tools :: json where
  "search_tools = JArr [JObj [(''google_search'', JObj [])]]"

definition news_fallback :: json where
  "news_fallback = JStr ''News sentiment could not be retrieved.''"

text \<open>Lines 164 to 179. The function has no way out but a returned value.\<close>

definition fetch_news_sentiment :: "net \<Rightarrow> string option \<Rightarrow> string \<Rightarrow> world \<Rightarrow> json \<times> world" where
  "fetch_news_sentiment nw api_key crypto_name w =
     (case call_gemini_api nw api_key (news_prompt crypto_name) None (Some search_tools) None
             (print (FetchingNews crypto_name) w) of
        (Inl e, w') \<Rightarrow> (news_fallback, print (NewsWarning e) w')
      | (Inr response_part, w') \<Rightarrow>
          (case item response_part ''text'' of
             Inl e \<Rightarrow> (news_fallback, print (NewsWarning e) w')
           | Inr t \<Rightarrow> (t, w')))"

section \<open>The analysis request\<close>

text \<open>
  The format specification \<open>.2f\<close> accepts a number (a boolean is one), raises
  \<open>ValueError\<close> on a string and \<open>TypeError\<close> on \<open>None\<close>, a list or a dictionary.
\<close>

fun format_2f :: "json \<Rightarrow> error + rat" where
  "format_2f (JNum r) = Inr r"
| "format_2f (JBool b) = Inr (if b then 1 else 0)"
| "format_2f (JStr s) = Inl FormatError"
| "format_2f v = Inl TypeError"

fun fval_json :: "fval \<Rightarrow> json" where
  "fval_json (Fin r) = JNum r"
| "fval_json PInf = JStr ''inf''"
| "fval_json NInf = JStr ''-inf''"
| "fval_json NaN = JStr ''nan''"

text \<open>
  The user prompt of lines 202 to 217, kept as the values the template interpolates:
  the name, the three numbers and the sentiment text.
\<close>

definition analysis_prompt :: "string \<Rightarrow> rat \<Rightarrow> fval \<Rightarrow> fval \<Rightarrow> json \<Rightarrow> json" where
  "analysis_prompt crypto_name price sma rsi news_sentiment =
     JObj [(''Analyze the market for'', JStr crypto_name),
           (''Current Price'', JNum price),
           (''20-Day SMA'', fval_json sma),
           (''14-Day RSI'', fval_json rsi),
           (''latest news sentiment'', news_sentiment)]"

definition analyst_system_prompt :: string where
  "analyst_system_prompt =
     ''You are an expert crypto analyst. Your analysis must be concise, unbiased, and directly reference the data provided. Return your analysis *only* in the following JSON format. Do not include any other text or markdown formatting.''"

definition string_field :: "string \<Rightarrow> json" where
  "string_field description = JObj [(''type'', JStr ''STRING''), (''description'', JStr description)]"

definition report_schema :: json where
  "report_schema =
     JObj [(''type'', JStr ''OBJECT''),
           (''properties'',
            JObj [(''analysis'',
                   string_field ''A concise 2-3 sentence analysis synthesizing the technical data and news.''),
                  (''recommendation'',
                   string_field ''A clear recommendation: Strong Buy, Buy, Hold, Sell, or Strong Sell.''),
                  (''confidence'',
                   string_field ''High, Medium, or Low confidence in the recommendation.'')]),
           (''required'', JArr [JStr ''analysis'', JStr ''recommendation'', JStr ''confidence''])]"

text \<open>
  Lines 183 to 250. \<open>json.loads\<close> belongs to the Python library and is the parameter
  \<open>loads\<close>: it gives the decoded value, or nothing where Python raises
  \<open>json.JSONDecodeError\<close>. The prompt is formatted before the \<open>try\<close>, so a price
  that cannot be formatted raises past both handlers. The exception \<open>Response.json()\<close>
  raises on a body that is not JSON is a \<open>json.JSONDecodeError\<close> too; the first
  handler takes it and fails on the variable \<open>response_part\<close>, which was never bound.
\<close>

definition get_ai_analysis ::
  "net \<Rightarrow> (string \<Rightarrow> json option) \<Rightarrow> string option \<Rightarrow> string \<Rightarrow> tech_data \<Rightarrow> json \<Rightarrow> world
     \<Rightarrow> (error + json) \<times> world" where
  "get_ai_analysis nw loads api_key crypto_name tech news_sentiment w =
     (case format_2f (current_price tech) of
        Inl e \<Rightarrow> (Inl e, print ConsultingAnalyst w)
      | Inr price \<Rightarrow>
          (case call_gemini_api nw api_key
                  (analysis_prompt crypto_name price (latest_sma tech) (latest_rsi tech) news_sentiment)
                  (Some analyst_system_prompt) None (Some report_schema)
                  (print ConsultingAnalyst w) of
             (Inl e, w') \<Rightarrow>
               if e = BodyDecodeError then (Inl UnboundLocalError, print InvalidJson w')
               else (Inl e, print (AnalysisError e) w')
           | (Inr response_part, w') \<Rightarrow>
               (case item response_part ''text'' of
                  Inl e \<Rightarrow> (Inl e, print (AnalysisError e) w')
                | Inr (JStr s) \<Rightarrow>
                    (case loads s of
                       None \<Rightarrow>
                         (Inl JSONDecodeError,
                          print (RawResponse (JStr s)) (print InvalidJson w'))
                     | Some report \<Rightarrow> (Inr report, w'))
                | Inr other \<Rightarrow> (Inl TypeError, print (AnalysisError TypeError) w'))))"

section \<open>The run\<close>

definition whitespace :: "char list" where
  "whitespace = map char_of [9, 10, 11, 12, 13, 28, 29, 30, 31, 32 :: nat]"

definition strip :: "string \<Rightarrow> string" where
  "strip s = rev (dropWhile (\<lambda>c. c \<in> set whitespace) (rev (dropWhile (\<lambda>c. c \<in> set whitespace) s)))"

fun capitalize :: "string \<Rightarrow> string" where
  "capitalize [] = []"
| "capitalize (c # cs) = upper_char c # lower cs"

definition crypto_map :: "(string \<times> string \<times> string) list" where
  "crypto_map =
     [(''bitcoin'', ''bitcoin'', ''Bitcoin''), (''btc'', ''bitcoin'', ''Bitcoin''),
      (''ethereum'', ''ethereum'', ''Ethereum''), (''eth'', ''ethereum'', ''Ethereum''),
      (''solana'', ''solana'', ''Solana''), (''sol'', ''solana'', ''Solana''),
      (''dogecoin'', ''dogecoin'', ''Dogecoin''), (''doge'', ''dogecoin'', ''Dogecoin'')]"

definition resolve :: "string \<Rightarrow> string \<times> string" where
  "resolve crypto_input =
     (case map_of crypto_map crypto_input of
        Some names \<Rightarrow> names
      | None \<Rightarrow> (crypto_input, capitalize crypto_input))"

text \<open>Lines 291 to 299: the two sections of the report, stopping at the first exception.\<close>

definition print_report :: "tech_data \<Rightarrow> json \<Rightarrow> world \<Rightarrow> (error + unit) \<times> world" where
  "print_report tech ai_report w =
     (let w1 = print TechnicalHeader w in
      case format_2f (current_price tech) of
        Inl e \<Rightarrow> (Inl e, w1)
      | Inr price \<Rightarrow>
          (let w2 = print ReportHeader
                      (print (RsiLine (latest_rsi tech))
                        (print (SmaLine (latest_sma tech))
                          (print (CurrentPriceLine (JNum price)) w1))) in
           case item ai_report ''analysis'' of
             Inl e \<Rightarrow> (Inl e, w2)
           | Inr a \<Rightarrow>
               (case item ai_report ''recommendation'' of
                  Inl e \<Rightarrow> (Inl e, print (AnalysisLine a) w2)
                | Inr r \<Rightarrow>
                    (case item ai_report ''confidence'' of
                       Inl e \<Rightarrow> (Inl e, print (RecommendationLine r) (print (AnalysisLine a) w2))
                     | Inr c \<Rightarrow>
                         (Inr (),
                          print (ConfidenceLine c)
                            (print (RecommendationLine r) (print (AnalysisLine a) w2)))))))"

text \<open>The steps of the \<open>try\<close> block of lines 271 to 299, after the input was read.\<close>

definition analysis_steps ::
  "net \<Rightarrow> (string \<Rightarrow> json option) \<Rightarrow> string option \<Rightarrow> string \<Rightarrow> world \<Rightarrow> (error + unit) \<times> world" where
  "analysis_steps nw loads api_key crypto_input w =
     (case resolve crypto_input of
        (coin_id, crypto_name) \<Rightarrow>
          (case fetch_market_data nw coin_id (print (Analyzing crypto_name) w) of
             (Inl e, w1) \<Rightarrow> (Inl e, w1)
           | (Inr tech, w1) \<Rightarrow>
               (case fetch_news_sentiment nw api_key crypto_name w1 of
                  (news_sentiment, w2) \<Rightarrow>
                    (case get_ai_analysis nw loads api_key crypto_name tech news_sentiment w2 of
                       (Inl e, w3) \<Rightarrow> (Inl e, w3)
                     | (Inr ai_report, w3) \<Rightarrow> print_report tech ai_report w3))))"

text \<open>
  Lines 254 to 302: \<open>typed\<close> is what the user enters. Whatever is raised is printed
  and the function returns.
\<close>

definition run_analysis ::
  "net \<Rightarrow> (string \<Rightarrow> json option) \<Rightarrow> string option \<Rightarrow> string \<Rightarrow> world \<Rightarrow> world" where
  "run_analysis nw loads api_key typed w =
     (let crypto_input = strip (lower typed) in
      if crypto_input = [] then print NoInput w
      else
        (case analysis_steps nw loads api_key crypto_input w of
           (Inl e, w') \<Rightarrow> print (RunError e) w'
         | (Inr u, w') \<Rightarrow> w'))"

text \<open>The messages of the report: the technical-data section and the analyst section.\<close>

fun report_message :: "event \<Rightarrow> bool" where
  "report_message (Printed TechnicalHeader) = True"
| "report_message (Printed (CurrentPriceLine p)) = True"
| "report_message (Printed (SmaLine v)) = True"
| "report_message (Printed (RsiLine v)) = True"
| "report_message (Printed ReportHeader) = True"
| "report_message (Printed (AnalysisLine a)) = True"
| "report_message (Printed (RecommendationLine r)) = True"
| "report_message (Printed (ConfidenceLine c)) = True"
| "report_message ev = False"

text \<open>
  \<open>quiet w w'\<close>: the journal of \<open>w'\<close> continues that of \<open>w\<close> without any message
  of the report.
\<close>

definition quiet :: "world \<Rightarrow> world \<Rightarrow> bool" where
  "quiet w w' = (\<exists>evs. journal w' = journal w @ evs \<and> filter report_message evs = [])"

text \<open>Sample inputs for the examples below.\<close>

definition example_url :: string where
  "example_url = ''https://api.coingecko.com/api/v3/ping''"

definition reply :: "int \<Rightarrow> outcome" where
  "reply st = Replied \<lparr>status_code = st, body = None\<rparr>"

definition one_to_twenty :: "rat list" where
  "one_to_twenty = [1, 2, 3, 4, 5, 6, 7, 8, 9, 10, 11, 12, 13, 14, 15, 16, 17, 18, 19, 20]"

definition rising_prices :: "rat list" where
  "rising_prices = [1, 2, 3, 4, 5, 6, 7, 8, 9, 10, 11, 12, 13, 14, 15]"

definition falling_prices :: "rat list" where
  "falling_prices = [15, 14, 13, 12, 11, 10, 9, 8, 7, 6, 5, 4, 3, 2, 1]"

definition mixed_prices :: "rat list" where
  "mixed_prices = [10, 12, 11, 13, 12, 14, 13, 15, 14, 16, 15, 17, 16, 18, 17, 19]"

definition short_history :: json where
  "short_history =
     JObj [(''prices'', JArr [JArr [JNum 1700000000000, JNum 100],
                              JArr [JNum 1700086400000, JNum 101]])]"

definition json_reply :: "json \<Rightarrow> outcome" where
  "json_reply doc = Replied \<lparr>status_code = 200, body = Some doc\<rparr>"

definition long_history :: json where
  "long_history = JObj [(''prices'', JArr (map (\<lambda>p. JArr [JNum p, JNum p]) one_to_twenty))]"

definition price_document :: json where
  "price_document = JObj [(''bitcoin'', JObj [(''usd'', JNum 20)])]"

definition model_reply :: "json \<Rightarrow> json" where
  "model_reply t = JObj [(''candidates'', JArr [JObj [(''content'', text_parts t)]])]"

definition sample_loads :: "string \<Rightarrow> json option" where
  "sample_loads s = (if s = ''{}'' then Some (JObj []) else None)"

definition pipeline_net :: net where
  "pipeline_net =
     script [json_reply long_history, json_reply price_document,
             json_reply (model_reply (JStr ''Sentiment is positive.'')),
             json_reply (model_reply (JStr ''not json''))] Failed"

definition history_of :: "rat list \<Rightarrow> json" where
  "history_of cs = JObj [(''prices'', JArr (map (\<lambda>p. JArr [JNum p, JNum p]) cs))]"

definition market_net :: "rat list \<Rightarrow> net" where
  "market_net cs = script [json_reply (history_of cs), json_reply price_document] Failed"

definition twenty_to_one :: "rat list" where
  "twenty_to_one = [20, 19, 18, 17, 16, 15, 14, 13, 12, 11, 10, 9, 8, 7, 6, 5, 4, 3, 2, 1]"

definition zigzag_prices :: "rat list" where
  "zigzag_prices =
     [10, 12, 11, 13, 12, 14, 13, 15, 14, 16, 15, 17, 16, 18, 17, 19, 18, 20, 19, 21]"

section \<open>Facts about the retrying client\<close>

lemma sleeps_append: "sleeps (xs @ ys) = sleeps xs @ sleeps ys"
  by (induction xs rule: sleeps.induct) auto

lemma requests_append: "requests (xs @ ys) = requests xs @ requests ys"
  by (induction xs rule: requests.induct) auto

lemma timeline_append: "timeline (xs @ ys) = timeline xs @ timeline ys"
  by (induction xs rule: timeline.induct) auto

lemma retry_rounds_0: "retry_rounds rq d 0 = []"
  by (simp add: retry_rounds_def)

lemma retry_rounds_Suc:
  "retry_rounds rq d (Suc N) = Requested rq # Slept d # retry_rounds rq (d * 2) N"
proof -
  have "[0..<Suc N] = 0 # map Suc [0..<N]"
    by (simp add: upt_rec[of 0 "Suc N"] map_Suc_upt del: upt_Suc)
  then show ?thesis
    by (simp add: retry_rounds_def comp_def mult.assoc del: upt_Suc)
qed

lemma since_append: "journal w' = journal w @ evs \<Longrightarrow> since w w' = evs"
  by (simp add: since_def)

lemma attempt_retryable:
  assumes "retryable (nw (served w) rq)" "0 \<le> d" "0 < left"
  shows "\<exists>w1 ps. attempt nw rq left d w = (Inr (Inr (d * 2)), w1) \<and> served w1 = Suc (served w)
           \<and> journal w1 = journal w @ ps \<and> timeline ps = [Requested rq, Slept d]"
  using assms
  by (auto simp: attempt_def send_def emit_def print_def sleep_def on_request_exception_def
        retryable_def split: outcome.splits)

lemma loop_after_retries:
  "0 \<le> d \<Longrightarrow> N < n \<Longrightarrow> \<forall>k<N. retryable (nw (served w + k) rq) \<Longrightarrow>
   \<exists>w1 ps. backoff_loop nw rq n d w = backoff_loop nw rq (n - N) (d * 2 ^ N) w1
      \<and> served w1 = served w + N \<and> journal w1 = journal w @ ps
      \<and> timeline ps = retry_rounds rq d N"
proof (induction N arbitrary: n d w)
  case 0
  show ?case
    by (rule exI[of _ w], rule exI[of _ "[]"]) (simp add: retry_rounds_0)
next
  case (Suc N)
  from Suc.prems obtain n' where n: "n = Suc n'" "N < n'" by (cases n) auto
  from Suc.prems have r0: "retryable (nw (served w) rq)" by (metis add.right_neutral zero_less_Suc)
  from attempt_retryable[where nw=nw and w=w and rq=rq and d=d and left=n', OF r0 \<open>0 \<le> d\<close>] n obtain w1 ps where a:
    "attempt nw rq n' d w = (Inr (Inr (d * 2)), w1)" "served w1 = Suc (served w)"
    "journal w1 = journal w @ ps" "timeline ps = [Requested rq, Slept d]"
    by auto
  have rest: "\<forall>k<N. retryable (nw (served w1 + k) rq)"
  proof (intro allI impI)
    fix k assume "k < N"
    then have "Suc k < Suc N" by simp
    with Suc.prems(3) have "retryable (nw (served w + Suc k) rq)" by blast
    then show "retryable (nw (served w1 + k) rq)" using a(2) by simp
  qed
  from \<open>0 \<le> d\<close> have d2: "0 \<le> d * 2" by simp
  from Suc.IH[where n=n' and d="d * 2" and w=w1, OF d2 n(2) rest] obtain w2 qs where 2:
    "backoff_loop nw rq n' (d * 2) w1 = backoff_loop nw rq (n' - N) (d * 2 * 2 ^ N) w2"
    "served w2 = served w1 + N" "journal w2 = journal w1 @ qs"
    "timeline qs = retry_rounds rq (d * 2) N"
    by blast
  show ?case
    apply (rule exI[of _ w2], rule exI[of _ "ps @ qs"])
    using a 2 n by (simp add: timeline_append retry_rounds_Suc mult.assoc)
qed

lemma attempt_client_error_last:
  assumes "nw (served w) rq = Replied r" "400 \<le> status_code r" "status_code r < 500"
    "status_code r \<noteq> 429"
  shows "attempt nw rq 0 d w =
     (Inl (HTTPError (status_code r)),
      \<lparr>served = Suc (served w),
       journal = journal w @ [Requested rq, Printed (FetchFailed (HTTPError (status_code r)))]\<rparr>)"
  using assms
  by (simp add: attempt_def send_def emit_def print_def on_request_exception_def
        raise_for_status_def)

lemma attempt_returned:
  assumes "nw (served w) rq = Replied r" "status_code r < 400 \<or> 600 \<le> status_code r"
  shows "attempt nw rq left d w =
     (Inr (Inl r), \<lparr>served = Suc (served w), journal = journal w @ [Requested rq]\<rparr>)"
  using assms
  by (auto simp: attempt_def send_def emit_def raise_for_status_def)

lemma attempt_cases:
  assumes "attempt nw rq left d w = (res, w')"
  shows "\<exists>evs. journal w' = journal w @ evs \<and> served w' = Suc (served w)
           \<and> requests evs = [rq]
           \<and> (case res of Inr (Inr d') \<Rightarrow> d' = d * 2 \<and> sleeps evs = [d]
               | _ \<Rightarrow> sleeps evs = [])"
  using assms
  by (auto simp: attempt_def send_def emit_def print_def sleep_def on_request_exception_def
        raise_for_status_def
      split: outcome.splits if_splits sum.splits prod.splits)

lemma loop_journal:
  "\<exists>evs m. journal (snd (backoff_loop nw rq n d w)) = journal w @ evs
      \<and> sleeps evs = map (\<lambda>k. d * 2 ^ k) [0..<m]
      \<and> requests evs = replicate (served (snd (backoff_loop nw rq n d w)) - served w) rq
      \<and> served w \<le> served (snd (backoff_loop nw rq n d w))
      \<and> (0 < n \<longrightarrow> served w < served (snd (backoff_loop nw rq n d w)))"
proof (induction n arbitrary: d w)
  case 0
  show ?case by (rule exI[of _ "[]"], rule exI[of _ 0]) simp
next
  case (Suc n)
  obtain res w1 where a: "attempt nw rq n d w = (res, w1)" by (cases "attempt nw rq n d w")
  from attempt_cases[OF a] obtain evs where evs:
    "journal w1 = journal w @ evs" "requests evs = [rq]" "served w1 = Suc (served w)"
    "(case res of Inr (Inr d') \<Rightarrow> d' = d * 2 \<and> sleeps evs = [d] | _ \<Rightarrow> sleeps evs = [])"
    by blast
  show ?case
  proof (cases res)
    case (Inl e)
    with a evs show ?thesis
      by (intro exI[of _ evs] exI[of _ 0]) simp
  next
    case (Inr x)
    show ?thesis
    proof (cases x)
      case (Inl r)
      with Inr a evs show ?thesis
        by (intro exI[of _ evs] exI[of _ 0]) simp
    next
      case (Inr d')
      with \<open>res = Inr x\<close> evs have d': "d' = d * 2" "sleeps evs = [d]" by simp_all
      let ?w2 = "snd (backoff_loop nw rq n (d * 2) w1)"
      from Suc.IH[of "d * 2" w1] obtain evs2 m where 2:
        "journal ?w2 = journal w1 @ evs2"
        "sleeps evs2 = map (\<lambda>k. d * 2 * 2 ^ k) [0..<m]"
        "requests evs2 = replicate (served ?w2 - served w1) rq"
        "served w1 \<le> served ?w2"
        by blast
      have m: "map (\<lambda>k. d * 2 ^ k) [0..<Suc m] = d # map (\<lambda>k. d * 2 * 2 ^ k) [0..<m]"
        by (simp add: upt_rec[of 0 "Suc m"] map_Suc_upt[symmetric] del: upt_Suc)
      from 2(4) evs(3) have r: "served ?w2 - served w = Suc (served ?w2 - served w1)" by simp
      have res: "backoff_loop nw rq (Suc n) d w = backoff_loop nw rq n (d * 2) w1"
        using a Inr \<open>res = Inr x\<close> d' by simp
      show ?thesis
        unfolding res
        apply (intro exI[of _ "evs @ evs2"] exI[of _ "Suc m"])
        using 2 d' evs r m by (simp add: sleeps_append requests_append del: upt_Suc)
    qed
  qed
qed

lemma upper_char_POST:
  "upper_char c = CHR ''P'' \<longleftrightarrow> c = CHR ''p'' \<or> c = CHR ''P''"
  "upper_char c = CHR ''O'' \<longleftrightarrow> c = CHR ''o'' \<or> c = CHR ''O''"
  "upper_char c = CHR ''S'' \<longleftrightarrow> c = CHR ''s'' \<or> c = CHR ''S''"
  "upper_char c = CHR ''T'' \<longleftrightarrow> c = CHR ''t'' \<or> c = CHR ''T''"
  by (auto simp: upper_char_def lowercase_letters_def uppercase_letters_def split: if_splits)

lemma lower_char_post:
  "lower_char c = CHR ''p'' \<longleftrightarrow> c = CHR ''p'' \<or> c = CHR ''P''"
  "lower_char c = CHR ''o'' \<longleftrightarrow> c = CHR ''o'' \<or> c = CHR ''O''"
  "lower_char c = CHR ''s'' \<longleftrightarrow> c = CHR ''s'' \<or> c = CHR ''S''"
  "lower_char c = CHR ''t'' \<longleftrightarrow> c = CHR ''t'' \<or> c = CHR ''T''"
  by (auto simp: lower_char_def lowercase_letters_def uppercase_letters_def split: if_splits)

lemma lower_POST: "lower ''POST'' = ''post''"
  by (simp add: lower_def lower_char_def lowercase_letters_def uppercase_letters_def)

lemma upper_is_POST: "upper m = ''POST'' \<longleftrightarrow> same_ignoring_case m ''POST''"
  unfolding same_ignoring_case_def lower_POST
  by (simp add: upper_def lower_def map_eq_Cons_conv upper_char_POST lower_char_post)

lemma all_less_2: "(\<forall>k<2::nat. P k) \<longleftrightarrow> P 0 \<and> P 1"
proof -
  have "\<And>k::nat. k < 2 \<longleftrightarrow> k = 0 \<or> k = 1" by arith
  then show ?thesis by auto
qed

lemma attempt_first:
  "\<exists>rest. journal (snd (attempt nw rq left d w)) = journal w @ Requested rq # rest"
  by (auto simp: attempt_def send_def emit_def print_def sleep_def on_request_exception_def
        raise_for_status_def
      split: outcome.splits if_splits sum.splits prod.splits)

lemma loop_first:
  "\<exists>rest. journal (snd (backoff_loop nw rq (Suc n) d w)) = journal w @ Requested rq # rest"
proof -
  obtain res w1 where a: "attempt nw rq n d w = (res, w1)" by (cases "attempt nw rq n d w")
  from attempt_first[of nw rq n d w] a obtain rest where 1: "journal w1 = journal w @ Requested rq # rest"
    by auto
  show ?thesis
  proof (cases "\<exists>d'. res = Inr (Inr d')")
    case True
    then obtain d' where "res = Inr (Inr d')" by blast
    with a have "backoff_loop nw rq (Suc n) d w = backoff_loop nw rq n d' w1" by simp
    moreover from loop_journal[of nw rq n d' w1] obtain evs where
      "journal (snd (backoff_loop nw rq n d' w1)) = journal w1 @ evs" by blast
    ultimately show ?thesis using 1 by simp
  next
    case False
    with a have "snd (backoff_loop nw rq (Suc n) d w) = w1"
      by (cases res) (auto split: sum.splits)
    with 1 show ?thesis by simp
  qed
qed

text \<open>
  After retryable failures only: a status from 400 to 499 other than 429 on the last
  attempt raises at once, and a status below 400 or above 599 is returned at once.
\<close>

lemma final_attempt_or_pass_through:
  assumes "0 \<le> delay" and "\<forall>k<N. retryable (nw (served w + k) (make_request u meth payload))"
    and "nw (served w + N) (make_request u meth payload) = Replied r"
  shows "(400 \<le> status_code r \<and> status_code r < 500 \<and> status_code r \<noteq> 429 \<and> nat retries = Suc N \<longrightarrow>
          (\<exists>w'. fetch_with_backoff nw u meth payload retries delay w = (Inl (HTTPError (status_code r)), w')
             \<and> served w' = served w + Suc N
             \<and> timeline (since w w') = retry_rounds (make_request u meth payload) delay N @ [Requested (make_request u meth payload)]))
       \<and> ((status_code r < 400 \<or> 600 \<le> status_code r) \<and> N < nat retries \<longrightarrow>
          (\<exists>w'. fetch_with_backoff nw u meth payload retries delay w = (Inr r, w')
             \<and> served w' = served w + Suc N
             \<and> timeline (since w w') = retry_rounds (make_request u meth payload) delay N @ [Requested (make_request u meth payload)]))"
proof (intro conjI impI)
  let ?rq = "make_request u meth payload"
  assume h: "400 \<le> status_code r \<and> status_code r < 500 \<and> status_code r \<noteq> 429 \<and> nat retries = Suc N"
  then have "N < nat retries" by simp
  from loop_after_retries[where nw=nw and w=w and rq="?rq" and d=delay and N=N and n="nat retries", OF assms(1) this assms(2)] obtain w1 ps where 1:
    "backoff_loop nw ?rq (nat retries) delay w = backoff_loop nw ?rq (nat retries - N) (delay * 2 ^ N) w1"
    "served w1 = served w + N" "journal w1 = journal w @ ps" "timeline ps = retry_rounds ?rq delay N"
    by blast
  from h have left: "nat retries - N = Suc 0" by simp
  from assms(3) 1(2) have "nw (served w1) ?rq = Replied r" by simp
  from attempt_client_error_last[where nw=nw and w=w1 and rq="?rq" and r=r and d="delay * 2 ^ N", OF this] h
  have "attempt nw ?rq 0 (delay * 2 ^ N) w1 =
     (Inl (HTTPError (status_code r)),
      \<lparr>served = Suc (served w1),
       journal = journal w1 @ [Requested ?rq, Printed (FetchFailed (HTTPError (status_code r)))]\<rparr>)"
    by simp
  with 1 left show "\<exists>w'. fetch_with_backoff nw u meth payload retries delay w = (Inl (HTTPError (status_code r)), w')
             \<and> served w' = served w + Suc N
             \<and> timeline (since w w') = retry_rounds ?rq delay N @ [Requested ?rq]"
    by (simp add: fetch_with_backoff_def since_def timeline_append)
next
  let ?rq = "make_request u meth payload"
  assume h: "(status_code r < 400 \<or> 600 \<le> status_code r) \<and> N < nat retries"
  then have lt: "N < nat retries" by simp
  from loop_after_retries[where nw=nw and w=w and rq="?rq" and d=delay and N=N and n="nat retries", OF assms(1) this assms(2)] obtain w1 ps where 1:
    "backoff_loop nw ?rq (nat retries) delay w = backoff_loop nw ?rq (nat retries - N) (delay * 2 ^ N) w1"
    "served w1 = served w + N" "journal w1 = journal w @ ps" "timeline ps = retry_rounds ?rq delay N"
    by blast
  from lt obtain left where left: "nat retries - N = Suc left" by (cases "nat retries - N") auto
  from assms(3) 1(2) have "nw (served w1) ?rq = Replied r" by simp
  from attempt_returned[where nw=nw and w=w1 and rq="?rq" and r=r and d="delay * 2 ^ N" and left=left, OF this] h
  have "attempt nw ?rq left (delay * 2 ^ N) w1 =
     (Inr (Inl r), \<lparr>served = Suc (served w1), journal = journal w1 @ [Requested ?rq]\<rparr>)"
    by simp
  with 1 left show "\<exists>w'. fetch_with_backoff nw u meth payload retries delay w = (Inr r, w')
             \<and> served w' = served w + Suc N
             \<and> timeline (since w w') = retry_rounds ?rq delay N @ [Requested ?rq]"
    by (simp add: fetch_with_backoff_def since_def timeline_append)
qed


text \<open>
  Claim C5. After \<open>N\<close> consecutive retryable failures (status 429, a status from 500
  to 599, or an exception of the request), with \<open>N\<close> below the number of attempts and a
  delay that is not negative, the requests and sleeps of the call begin with \<open>N\<close> rounds
  of a request and a sleep followed by one more request, and the sleep of round \<open>k\<close>,
  counted from 0, lasts \<open>delay * 2 ^ k\<close>: the first retry waits the initial delay and
  each later one twice the previous. Moreover the sleeps of every call are
  \<open>delay * 2 ^ k\<close> for \<open>k = 0, 1, ...\<close> whatever the answers.
\<close>

theorem backoff_delays_double:
  assumes "0 \<le> delay" and "N < nat retries"
    and "\<forall>k<N. retryable (nw (served w + k) (make_request u meth payload))"
  shows "prefix (retry_rounds (make_request u meth payload) delay N @ [Requested (make_request u meth payload)])
           (timeline (since w (snd (fetch_with_backoff nw u meth payload retries delay w))))
       \<and> (\<exists>m. sleeps (since w (snd (fetch_with_backoff nw u meth payload retries delay w)))
              = map (\<lambda>k. delay * 2 ^ k) [0..<m])"
proof
  let ?rq = "make_request u meth payload"
  from loop_after_retries[where nw=nw and w=w and rq="?rq" and d=delay and N=N and n="nat retries",
      OF assms] obtain w1 ps where 1:
    "backoff_loop nw ?rq (nat retries) delay w = backoff_loop nw ?rq (nat retries - N) (delay * 2 ^ N) w1"
    "journal w1 = journal w @ ps" "timeline ps = retry_rounds ?rq delay N"
    by blast
  from assms(2) obtain left where left: "nat retries - N = Suc left" by (cases "nat retries - N") auto
  from loop_first[of nw ?rq left "delay * 2 ^ N" w1] obtain rest where
    "journal (snd (backoff_loop nw ?rq (Suc left) (delay * 2 ^ N) w1)) = journal w1 @ Requested ?rq # rest"
    by blast
  with 1 left have "since w (snd (fetch_with_backoff nw u meth payload retries delay w))
      = ps @ Requested ?rq # rest"
    by (simp add: fetch_with_backoff_def since_def)
  with 1(3) show "prefix (retry_rounds ?rq delay N @ [Requested ?rq])
           (timeline (since w (snd (fetch_with_backoff nw u meth payload retries delay w))))"
    by (simp add: timeline_append prefix_def)
next
  let ?rq = "make_request u meth payload"
  from loop_journal[of nw ?rq "nat retries" delay w] obtain evs m where
    "journal (snd (backoff_loop nw ?rq (nat retries) delay w)) = journal w @ evs"
    "sleeps evs = map (\<lambda>k. delay * 2 ^ k) [0..<m]" by blast
  then show "\<exists>m. sleeps (since w (snd (fetch_with_backoff nw u meth payload retries delay w)))
              = map (\<lambda>k. delay * 2 ^ k) [0..<m]"
    by (auto simp: fetch_with_backoff_def since_def)
qed


lemma make_request_dispatch:
  "make_request u meth payload = (if same_ignoring_case meth ''POST''
          then \<lparr>verb = POST, url = u, json_payload = payload\<rparr>
          else \<lparr>verb = GET, url = u, json_payload = None\<rparr>)"
  unfolding make_request_def upper_is_POST ..

lemma loop_requests:
  "requests (since w (snd (backoff_loop nw rq n delay w)))
     = replicate (served (snd (backoff_loop nw rq n delay w)) - served w) rq
   \<and> (0 < n \<longrightarrow> served w < served (snd (backoff_loop nw rq n delay w)))"
proof -
  let ?w' = "snd (backoff_loop nw rq n delay w)"
  from loop_journal[of nw rq n delay w] obtain evs where evs:
    "journal ?w' = journal w @ evs" "requests evs = replicate (served ?w' - served w) rq"
    "0 < n \<longrightarrow> served w < served ?w'" by blast
  have 1: "since w ?w' = evs" using evs(1) by (rule since_append)
  show ?thesis
    unfolding 1 using evs(2,3) by blast
qed

text \<open>
  Claim C9. Every request a call of \<open>fetch_with_backoff\<close> issues is a POST with the
  JSON payload when the method string equals \<open>POST\<close> up to letter case, and a GET
  without payload for every other string; a call with a positive number of attempts
  issues at least one request.
\<close>

theorem method_selects_verb:
  "requests (since w (snd (fetch_with_backoff nw u meth payload retries delay w)))
     = replicate (served (snd (fetch_with_backoff nw u meth payload retries delay w)) - served w)
         (if same_ignoring_case meth ''POST''
          then \<lparr>verb = POST, url = u, json_payload = payload\<rparr>
          else \<lparr>verb = GET, url = u, json_payload = None\<rparr>)
   \<and> (0 < retries \<longrightarrow> served w < served (snd (fetch_with_backoff nw u meth payload retries delay w)))"
proof -
  have "0 < retries \<longrightarrow> 0 < nat retries" by simp
  with loop_requests[of w nw "make_request u meth payload" "nat retries" delay]
  show ?thesis
    unfolding fetch_with_backoff_def make_request_dispatch[symmetric] by simp
qed

lemma served_fresh: "served fresh = 0" by (simp add: fresh_def)

lemma delete_run_served: "served (snd (fetch_with_backoff (always (reply 200)) example_url ''DELETE'' (Some JNull) 3 2 fresh)) = 1"
  by (simp add: fetch_with_backoff_def eval_nat_numeral attempt_def send_def always_def reply_def
      served_fresh emit_def raise_for_status_def)
lemma post_run_served: "served (snd (fetch_with_backoff (always (reply 200)) example_url ''pOsT'' (Some JNull) 3 2 fresh)) = 1"
  by (simp add: fetch_with_backoff_def eval_nat_numeral attempt_def send_def always_def reply_def
      served_fresh emit_def raise_for_status_def)
lemma sample_methods: "\<not> same_ignoring_case ''DELETE'' ''POST''" "same_ignoring_case ''pOsT'' ''POST''"
  by (simp_all add: same_ignoring_case_def lower_def lower_char_def lowercase_letters_def uppercase_letters_def)

text \<open>
  Claim C9, two instances: the method \<open>DELETE\<close> issues a GET and the method
  \<open>pOsT\<close> issues a POST with the payload.
\<close>

theorem method_selects_verb_witness:
  "requests (since fresh (snd (fetch_with_backoff (always (reply 200)) example_url ''DELETE'' (Some JNull) 3 2 fresh)))
     = [\<lparr>verb = GET, url = example_url, json_payload = None\<rparr>]
   \<and> requests (since fresh (snd (fetch_with_backoff (always (reply 200)) example_url ''pOsT'' (Some JNull) 3 2 fresh)))
     = [\<lparr>verb = POST, url = example_url, json_payload = Some JNull\<rparr>]"
  using method_selects_verb[of fresh "always (reply 200)" example_url "''DELETE''" "Some JNull" 3 2]
        method_selects_verb[of fresh "always (reply 200)" example_url "''pOsT''" "Some JNull" 3 2]
  by (simp add: delete_run_served post_run_served sample_methods served_fresh)


lemmas run_simps = fetch_with_backoff_def make_request_def upper_def upper_char_def
  lowercase_letters_def uppercase_letters_def eval_nat_numeral attempt_def send_def script_def
  always_def reply_def served_fresh emit_def print_def sleep_def on_request_exception_def
  raise_for_status_def

lemma retry_rounds_2: "retry_rounds rq d 2 = [Requested rq, Slept d, Requested rq, Slept (d * 2)]"
  by (simp add: eval_nat_numeral retry_rounds_Suc retry_rounds_0)

text \<open>
  Claim C5, an instance: a connection failure and a 503, then a success, with three
  attempts and an initial delay of two seconds.
\<close>

theorem backoff_delays_double_witness:
  "prefix [Requested (make_request example_url ''GET'' None), Slept 2,
           Requested (make_request example_url ''GET'' None), Slept 4,
           Requested (make_request example_url ''GET'' None)]
     (timeline (since fresh (snd (fetch_with_backoff (script [Failed, reply 503] (reply 200))
         example_url ''GET'' None 3 2 fresh))))"
proof -
  let ?rq = "make_request example_url ''GET'' None"
  let ?nw = "script [Failed, reply 503] (reply 200)"
  have a: "\<forall>k<2. retryable (?nw (served fresh + k) ?rq)"
    by (simp add: all_less_2 retryable_def script_def reply_def served_fresh)
  have z: "(0::int) \<le> 2" by simp
  have n: "2 < nat 3" by simp
  show ?thesis
    using backoff_delays_double[where delay=2 and N=2 and retries=3 and nw="?nw" and w=fresh
            and u=example_url and meth="''GET''" and payload=None, OF z n a]
    by (simp add: retry_rounds_2 served_fresh)
qed

section \<open>Facts about the indicators\<close>

lemma fsum_Fin: "fsum (map Fin qs) = Fin (sum_list qs)"
  by (induction qs) (simp_all add: fsum_def)

lemma mean_Fin: "qs \<noteq> [] \<Longrightarrow> mean (map Fin qs) = Fin (sum_list qs / of_nat (length qs))"
  by (simp add: mean_def fsum_Fin)

lemma window_map: "window n (map f xs) i = map f (window n xs i)"
  by (simp add: window_def take_map drop_map)

lemma window_nths:
  assumes "n \<le> Suc i" "i < length xs"
  shows "window n xs i = map (\<lambda>j. xs ! j) [Suc i - n..<Suc i]"
proof (rule nth_equalityI)
  show "length (window n xs i) = length (map (\<lambda>j. xs ! j) [Suc i - n..<Suc i])"
    using assms by (auto simp: window_def)
next
  fix k assume "k < length (window n xs i)"
  then have k: "k < n" by (simp add: window_def)
  with assms have "Suc i - n + k < Suc i" "Suc i - n + k \<le> length xs" by simp_all
  with k assms show "window n xs i ! k = map (\<lambda>j. xs ! j) [Suc i - n..<Suc i] ! k"
    by (simp add: window_def del: upt_Suc)
qed

lemma window_last:
  assumes "n \<le> length xs" "0 < n"
  shows "window n xs (length xs - 1) = drop (length xs - n) xs"
  using assms by (simp add: window_def)

lemma rolling_mean_length: "length (rolling_mean n xs) = length xs"
  by (simp add: rolling_mean_def)

lemma rolling_mean_nth:
  "i < length xs \<Longrightarrow> rolling_mean n xs ! i = (if Suc i < n then NaN else mean (window n xs i))"
  by (simp add: rolling_mean_def)

lemma last_filter_keep:
  assumes "xs \<noteq> []" "P (last xs)"
  shows "last (filter P xs) = last xs"
proof -
  from assms(1) have "xs = butlast xs @ [last xs]" by simp
  then have "filter P xs = filter P (butlast xs) @ filter P [last xs]"
    by (metis filter_append)
  with assms(2) show ?thesis by simp
qed

lemma iloc_last_dropna:
  assumes "xs \<noteq> []" "last xs \<noteq> NaN"
  shows "iloc_last (dropna xs) = Inr (last xs)"
proof -
  from assms have "last xs \<in> set (dropna xs)" by (simp add: dropna_def)
  then have ne: "dropna xs \<noteq> []" by auto
  from assms have "last (dropna xs) = last xs"
    unfolding dropna_def by (intro last_filter_keep) simp_all
  with ne show ?thesis by (simp add: iloc_last_def)
qed

lemma latest_sma_mean:
  assumes "20 \<le> length cs"
  shows "latest_sma_of (map Fin cs) = Inr (Fin (sum_list (drop (length cs - 20) cs) / 20))"
proof -
  let ?xs = "map Fin cs"
  let ?s = "sma_20 ?xs"
  from assms have ne: "?s \<noteq> []" by (auto simp: sma_20_def rolling_mean_def)
  have len: "length ?s = length cs" by (simp add: sma_20_def rolling_mean_length)
  from assms have w: "window 20 cs (length cs - 1) = drop (length cs - 20) cs"
    by (intro window_last) simp_all
  from assms have "drop (length cs - 20) cs \<noteq> []" by simp
  from mean_Fin[OF this] assms
  have m: "mean (map Fin (drop (length cs - 20) cs)) = Fin (sum_list (drop (length cs - 20) cs) / 20)"
    by simp
  from assms have "last ?s = ?s ! (length cs - 1)" using ne len by (simp add: last_conv_nth)
  also have "\<dots> = mean (window 20 ?xs (length cs - 1))"
  proof -
    from assms have "\<not> Suc (length cs - 1) < 20" "length cs - 1 < length ?xs" by simp_all
    then show ?thesis unfolding sma_20_def by (simp only: rolling_mean_nth if_False)
  qed
  also have "\<dots> = Fin (sum_list (drop (length cs - 20) cs) / 20)"
    by (simp only: window_map w m)
  finally have l: "last ?s = Fin (sum_list (drop (length cs - 20) cs) / 20)" .
  then have "last ?s \<noteq> NaN" by simp
  from iloc_last_dropna[OF ne this] l show ?thesis by (simp add: latest_sma_of_def)
qed

lemma diff_Fin:
  "diff (map Fin cs) = map (\<lambda>j. if j = 0 then NaN else Fin (cs ! j - cs ! (j - 1))) [0..<length cs]"
  by (simp add: diff_def fsub_def)

lemma gains_series:
  "series_where (\<lambda>x. fless (Fin 0) x) (Fin 0) (diff (map Fin cs))
     = map (\<lambda>j. Fin (up_move cs j)) [0..<length cs]"
  by (simp add: series_where_def diff_Fin up_move_def max_def)

lemma losses_series:
  "map fneg (series_where (\<lambda>x. fless x (Fin 0)) (Fin 0) (diff (map Fin cs)))
     = map (\<lambda>j. Fin (down_move cs j)) [0..<length cs]"
  by (simp add: series_where_def diff_Fin down_move_def max_def)

lemma window_of_series:
  assumes "n \<le> Suc i" "i < m"
  shows "window n (map (\<lambda>j. Fin (f j)) [0..<m]) i = map Fin (map f [Suc i - n..<Suc i])"
proof -
  from assms have "window n (map (\<lambda>j. Fin (f j)) [0..<m]) i
      = map (\<lambda>j. map (\<lambda>j. Fin (f j)) [0..<m] ! j) [Suc i - n..<Suc i]"
    by (intro window_nths) simp_all
  also from assms have "\<dots> = map (\<lambda>j. Fin (f j)) [Suc i - n..<Suc i]"
    by (intro map_cong) (simp_all del: upt_Suc)
  finally show ?thesis by (simp add: comp_def del: upt_Suc)
qed

lemma rolling_series_nth:
  assumes "0 < n" "n \<le> Suc i" "i < m"
  shows "rolling_mean n (map (\<lambda>j. Fin (f j)) [0..<m]) ! i
           = Fin (sum_list (map f [Suc i - n..<Suc i]) / of_nat n)"
proof -
  from assms have "\<not> Suc i < n" by simp
  moreover from assms have "i < length (map (\<lambda>j. Fin (f j)) [0..<m])" by simp
  ultimately have "rolling_mean n (map (\<lambda>j. Fin (f j)) [0..<m]) ! i
      = mean (window n (map (\<lambda>j. Fin (f j)) [0..<m]) i)"
    by (simp only: rolling_mean_nth if_False)
  also have "\<dots> = mean (map Fin (map f [Suc i - n..<Suc i]))"
    using assms by (simp only: window_of_series)
  also have "\<dots> = Fin (sum_list (map f [Suc i - n..<Suc i]) / of_nat n)"
  proof -
    from assms have "map f [Suc i - n..<Suc i] \<noteq> []" by (simp del: upt_Suc)
    moreover from assms have "length (map f [Suc i - n..<Suc i]) = n" by (simp del: upt_Suc)
    ultimately show ?thesis using mean_Fin[of "map f [Suc i - n..<Suc i]"] by simp
  qed
  finally show ?thesis .
qed

lemma gain_14_nth:
  assumes "13 \<le> i" "i < length cs"
  shows "gain_14 (map Fin cs) ! i = Fin (sum_list (map (up_move cs) [i - 13..<Suc i]) / 14)"
  using rolling_series_nth[of 14 i "length cs" "up_move cs"] assms
  by (simp add: gain_14_def gains_series del: upt_Suc)

lemma loss_14_nth:
  assumes "13 \<le> i" "i < length cs"
  shows "loss_14 (map Fin cs) ! i = Fin (sum_list (map (down_move cs) [i - 13..<Suc i]) / 14)"
  using rolling_series_nth[of 14 i "length cs" "down_move cs"] assms
  by (simp add: loss_14_def losses_series del: upt_Suc)

lemma gain_14_length: "length (gain_14 xs) = length xs"
  by (simp add: gain_14_def rolling_mean_length series_where_def diff_def)

lemma loss_14_length: "length (loss_14 xs) = length xs"
  by (simp add: loss_14_def rolling_mean_length series_where_def diff_def)

lemma rsi_14_length: "length (rsi_14 xs) = length xs"
  by (simp add: rsi_14_def gain_14_length loss_14_length)

lemma rsi_14_nth:
  "i < length xs \<Longrightarrow> rsi_14 xs ! i = index_of_rs (fdiv (gain_14 xs ! i) (loss_14 xs ! i))"
  by (simp add: rsi_14_def gain_14_length loss_14_length)

lemma rsi_14_early:
  assumes "i < 13" "i < length xs"
  shows "rsi_14 xs ! i = NaN"
proof -
  from assms have "gain_14 xs ! i = NaN"
    by (simp add: gain_14_def rolling_mean_nth series_where_def diff_def)
  with assms show ?thesis by (simp add: rsi_14_nth index_of_rs_def fsub_def)
qed

lemma rsi_14_Fin_nth:
  assumes "13 \<le> i" "i < length cs"
  shows "rsi_14 (map Fin cs) ! i =
     index_of_rs (fdiv (Fin (sum_list (map (up_move cs) [i - 13..<Suc i]) / 14))
                       (Fin (sum_list (map (down_move cs) [i - 13..<Suc i]) / 14)))"
  using assms by (simp add: rsi_14_nth gain_14_nth loss_14_nth del: upt_Suc)

lemma sum_list_pos_rat:
  fixes xs :: "rat list"
  assumes "xs \<noteq> []" "\<forall>x\<in>set xs. 0 < x"
  shows "0 < sum_list xs"
  using assms by (induction xs) (auto intro: add_pos_nonneg sum_list_nonneg less_imp_le)

lemma index_of_rs_values:
  "index_of_rs PInf = Fin 100" "index_of_rs NInf = Fin 100" "index_of_rs (Fin 0) = Fin 0"
  "index_of_rs NaN = NaN"
  by (simp_all add: index_of_rs_def fsub_def)

lemma latest_rsi_last:
  assumes "xs \<noteq> []" "rsi_14 xs ! (length xs - 1) = v" "v \<noteq> NaN"
  shows "latest_rsi_of xs = Inr v"
proof -
  from assms(1) have ne: "rsi_14 xs \<noteq> []" using rsi_14_length[of xs] by auto
  then have "last (rsi_14 xs) = v" using assms(2) by (simp add: last_conv_nth rsi_14_length)
  with iloc_last_dropna[OF ne] assms(3) show ?thesis by (simp add: latest_rsi_of_def)
qed

lemma rising_moves:
  assumes "sorted_wrt (<) cs" "0 < j" "j < length cs"
  shows "0 < up_move cs j" "down_move cs j = 0"
proof -
  from assms have "cs ! (j - 1) < cs ! j" by (intro sorted_wrt_nth_less) simp_all
  with assms(2) show "0 < up_move cs j" "down_move cs j = 0"
    by (simp_all add: up_move_def down_move_def)
qed

lemma falling_moves:
  assumes "sorted_wrt (>) cs" "0 < j" "j < length cs"
  shows "0 < down_move cs j" "up_move cs j = 0"
proof -
  from assms have "cs ! (j - 1) > cs ! j" by (intro sorted_wrt_nth_less) simp_all
  with assms(2) show "0 < down_move cs j" "up_move cs j = 0"
    by (simp_all add: up_move_def down_move_def)
qed

lemma sum_list_zero: "(\<forall>x\<in>set xs. f x = (0::rat)) \<Longrightarrow> sum_list (map f xs) = 0"
  by (induction xs) simp_all

text \<open>
  Lines 145 to 153 on a strictly falling and on a strictly rising series.
\<close>

lemma rsi_of_monotone_series:
  assumes "15 \<le> length cs"
  shows "(sorted_wrt (>) cs \<longrightarrow> latest_rsi_of (map Fin cs) = Inr (Fin 0))
       \<and> (sorted_wrt (<) cs \<longrightarrow> latest_rsi_of (map Fin cs) = Inr (Fin 100))"
proof (intro conjI impI)
  let ?i = "length cs - 1"
  let ?js = "[?i - 13..<Suc ?i]"
  from assms have i: "13 \<le> ?i" "?i < length cs" by simp_all
  have js: "\<forall>j\<in>set ?js. 0 < j \<and> j < length cs" using assms by auto
  have ne: "?js \<noteq> []" using assms by simp
  note r = rsi_14_Fin_nth[OF i]
  from assms have cne: "map Fin cs \<noteq> []" by auto
  {
    assume s: "sorted_wrt (>) cs"
    from js falling_moves[OF s] have "\<forall>x\<in>set (map (down_move cs) ?js). 0 < x" by auto
    with ne have L: "0 < sum_list (map (down_move cs) ?js)" by (intro sum_list_pos_rat) simp_all
    from js falling_moves[OF s] have G: "sum_list (map (up_move cs) ?js) = 0"
      by (intro sum_list_zero) auto
    from L G have "rsi_14 (map Fin cs) ! (length (map Fin cs) - 1) = Fin 0"
      unfolding length_map r by (simp add: index_of_rs_values del: upt_Suc)
    from latest_rsi_last[OF cne this] show "latest_rsi_of (map Fin cs) = Inr (Fin 0)" by simp
  }
  {
    assume s: "sorted_wrt (<) cs"
    from js rising_moves[OF s] have "\<forall>x\<in>set (map (up_move cs) ?js). 0 < x" by auto
    with ne have G: "0 < sum_list (map (up_move cs) ?js)" by (intro sum_list_pos_rat) simp_all
    from js rising_moves[OF s] have L: "sum_list (map (down_move cs) ?js) = 0"
      by (intro sum_list_zero) auto
    from L G have "rsi_14 (map Fin cs) ! (length (map Fin cs) - 1) = Fin 100"
      unfolding length_map r by (simp add: index_of_rs_values del: upt_Suc)
    from latest_rsi_last[OF cne this] show "latest_rsi_of (map Fin cs) = Inr (Fin 100)" by simp
  }
qed

lemma moves_are_deltas:
  assumes "0 < j"
  shows "up_move cs j = (if 0 < price_delta cs j then price_delta cs j else 0)"
    and "down_move cs j = (if price_delta cs j < 0 then \<bar>price_delta cs j\<bar> else 0)"
  using assms by (auto simp: up_move_def down_move_def price_delta_def max_def)

lemma rsi_14_is_strength_index:
  assumes "14 \<le> i" "i < length cs"
  shows "rsi_14 (map Fin cs) ! i = strength_index cs i"
proof -
  from assms have i: "13 \<le> i" by simp
  have js: "\<forall>j\<in>set [i - 13..<Suc i]. 0 < j" using assms by auto
  then have "map (up_move cs) [i - 13..<Suc i]
      = map (\<lambda>j. if 0 < price_delta cs j then price_delta cs j else 0) [i - 13..<Suc i]"
    by (intro map_cong) (simp_all add: moves_are_deltas del: upt_Suc)
  moreover from js have "map (down_move cs) [i - 13..<Suc i]
      = map (\<lambda>j. if price_delta cs j < 0 then \<bar>price_delta cs j\<bar> else 0) [i - 13..<Suc i]"
    by (intro map_cong) (simp_all add: moves_are_deltas del: upt_Suc)
  ultimately show ?thesis
    unfolding rsi_14_Fin_nth[OF i assms(2)] strength_index_def relative_strength_def
      average_gain_def average_loss_def index_of_rs_def
    by (simp only:)
qed

lemma up_move_nonneg: "0 \<le> up_move cs j"
  by (simp add: up_move_def)

lemma down_move_nonneg: "0 \<le> down_move cs j"
  by (simp add: down_move_def)

lemma index_of_rs_NaN:
  assumes "0 \<le> g" "0 \<le> l" "index_of_rs (fdiv (Fin g) (Fin l)) = NaN"
  shows "g = 0 \<and> l = 0"
proof (rule ccontr)
  assume n: "\<not> (g = 0 \<and> l = 0)"
  show False
  proof (cases "l = 0")
    case True
    with n assms(1) have "0 < g" by simp
    with True assms(3) show False by (simp add: index_of_rs_values)
  next
    case False
    with assms have "0 \<le> g / l" by simp
    then have "1 + g / l \<noteq> 0" by linarith
    with False assms(3) show False by (simp add: index_of_rs_def fsub_def)
  qed
qed

lemma sum_list_zero_elems:
  fixes f :: "nat \<Rightarrow> rat"
  assumes "\<And>j. 0 \<le> f j" "sum_list (map f js) = 0"
  shows "\<forall>j\<in>set js. f j = 0"
  using assms(2)
proof (induction js)
  case Nil
  show ?case by simp
next
  case (Cons a js)
  have "0 \<le> sum_list (map f js)" using assms(1) by (intro sum_list_nonneg) auto
  with Cons.prems assms(1)[of a] have "f a = 0" "sum_list (map f js) = 0" by simp_all
  with Cons.IH show ?case by simp
qed

lemma sum_moves_zero:
  fixes f :: "nat \<Rightarrow> rat"
  assumes "sum_list (map f js) / 14 = (0::rat)" "\<And>j. 0 \<le> f j" "j \<in> set js"
  shows "f j = 0"
proof -
  from assms(1) have "sum_list (map f js) = 0" by simp
  from sum_list_zero_elems[of f js, OF assms(2) this] assms(3) show ?thesis by blast
qed

lemma quiet_at_14_quiet_at_13:
  assumes "15 \<le> length cs" "rsi_14 (map Fin cs) ! 14 = NaN"
  shows "rsi_14 (map Fin cs) ! 13 = NaN"
proof -
  from assms(1) have l: "14 < length cs" "13 < length cs" by simp_all
  let ?G = "sum_list (map (up_move cs) [14 - 13..<Suc 14]) / 14"
  let ?L = "sum_list (map (down_move cs) [14 - 13..<Suc 14]) / 14"
  have "0 \<le> ?G" "0 \<le> ?L"
    by (auto intro!: sum_list_nonneg divide_nonneg_nonneg simp: up_move_nonneg down_move_nonneg)
  moreover from assms(2) have "index_of_rs (fdiv (Fin ?G) (Fin ?L)) = NaN"
    using rsi_14_Fin_nth[of 14 cs] l by (simp del: upt_Suc)
  ultimately have z: "?G = 0" "?L = 0" using index_of_rs_NaN by blast+
  have u: "up_move cs j = 0" if "j \<in> set [0..<Suc 13]" for j
  proof (cases "j = 0")
    case True then show ?thesis by (simp add: up_move_def)
  next
    case False
    with that have "j \<in> set [14 - 13..<Suc 14]" by auto
    from sum_moves_zero[OF z(1) up_move_nonneg this] show ?thesis .
  qed
  have d: "down_move cs j = 0" if "j \<in> set [0..<Suc 13]" for j
  proof (cases "j = 0")
    case True then show ?thesis by (simp add: down_move_def)
  next
    case False
    with that have "j \<in> set [14 - 13..<Suc 14]" by auto
    from sum_moves_zero[OF z(2) down_move_nonneg this] show ?thesis .
  qed
  have "sum_list (map (up_move cs) [13 - 13..<Suc 13]) = 0"
    using u by (intro sum_list_zero) simp
  moreover have "sum_list (map (down_move cs) [13 - 13..<Suc 13]) = 0"
    using d by (intro sum_list_zero) simp
  ultimately show ?thesis
    using rsi_14_Fin_nth[of 13 cs] l by (simp add: index_of_rs_values del: upt_Suc)
qed

text \<open>
  Lines 145 to 153 compute the most recent defined index of the specification.
\<close>

lemma latest_rsi_refines:
  assumes "15 \<le> length cs"
  shows "latest_rsi_of (map Fin cs) =
           (case most_recent_index cs of None \<Rightarrow> Inl IndexError | Some v \<Rightarrow> Inr v)"
proof -
  let ?R = "rsi_14 (map Fin cs)"
  have len: "length ?R = length cs" by (simp add: rsi_14_length)
  have tail: "drop 14 ?R = map (strength_index cs) [14..<length cs]"
  proof (rule nth_equalityI)
    show "length (drop 14 ?R) = length (map (strength_index cs) [14..<length cs])"
      by (simp add: len)
  next
    fix k assume "k < length (drop 14 ?R)"
    then have k: "14 + k < length cs" by (simp add: len)
    then have "drop 14 ?R ! k = ?R ! (14 + k)" by (simp add: len)
    also have "\<dots> = strength_index cs (14 + k)" using k by (intro rsi_14_is_strength_index) simp_all
    finally show "drop 14 ?R ! k = map (strength_index cs) [14..<length cs] ! k" using k by simp
  qed
  have split: "dropna ?R = dropna (take 14 ?R) @ defined_indexes cs"
  proof -
    have "dropna ?R = dropna (take 14 ?R @ drop 14 ?R)" by simp
    also have "\<dots> = dropna (take 14 ?R) @ dropna (drop 14 ?R)"
      unfolding dropna_def by (rule filter_append)
    finally show ?thesis by (simp add: tail defined_indexes_def dropna_def)
  qed
  show ?thesis
  proof (cases "defined_indexes cs = []")
    case False
    then show ?thesis
      by (simp add: latest_rsi_of_def split iloc_last_def most_recent_index_def)
  next
    case True
    from assms have "strength_index cs 14 \<in> set (map (strength_index cs) [14..<length cs])"
      by auto
    with True have "strength_index cs 14 = NaN"
      unfolding defined_indexes_def by (auto simp: filter_empty_conv)
    with assms have "?R ! 14 = NaN" by (simp add: rsi_14_is_strength_index)
    from quiet_at_14_quiet_at_13[OF assms this] have r13: "?R ! 13 = NaN" .
    have "\<forall>v\<in>set (take 14 ?R). v = NaN"
    proof
      fix v assume "v \<in> set (take 14 ?R)"
      then obtain k where k: "k < 14" "k < length ?R" "v = ?R ! k"
        by (auto simp: in_set_conv_nth)
      show "v = NaN"
      proof (cases "k = 13")
        case True with k r13 show ?thesis by simp
      next
        case False
        with k have "k < 13" by simp
        with k show ?thesis using rsi_14_early[of k "map Fin cs"] by (simp add: len)
      qed
    qed
    then have "dropna (take 14 ?R) = []" by (auto simp: dropna_def filter_empty_conv)
    with True show ?thesis
      by (simp add: latest_rsi_of_def split iloc_last_def most_recent_index_def)
  qed
qed

section \<open>Facts about the market-data retriever\<close>

lemma short_history_no_sma:
  assumes "length closes < 20"
  shows "latest_sma_of closes = Inl IndexError"
proof -
  have "\<forall>v\<in>set (sma_20 closes). v = NaN"
  proof
    fix v assume "v \<in> set (sma_20 closes)"
    then obtain i where "i < length closes" "v = sma_20 closes ! i"
      by (auto simp: in_set_conv_nth sma_20_def rolling_mean_length)
    with assms show "v = NaN" by (simp add: sma_20_def rolling_mean_nth)
  qed
  then have "dropna (sma_20 closes) = []" by (auto simp: dropna_def filter_empty_conv)
  then show ?thesis by (simp add: latest_sma_of_def iloc_last_def)
qed

lemma close_column_length: "close_column (JArr rows) = Inr closes \<Longrightarrow> length closes = length rows"
  by (auto split: if_splits)

lemma short_history_no_indicators:
  assumes "item history_data ''prices'' = Inr (JArr rows)" "length rows < 20"
  shows "\<exists>e. indicators crypto_id history_data price_data = Inl e"
proof (cases "close_column (JArr rows)")
  case (Inl e)
  with assms show ?thesis by (simp add: indicators_def and_then_def)
next
  case (Inr closes)
  with assms close_column_length[OF Inr] have "latest_sma_of closes = Inl IndexError"
    by (intro short_history_no_sma) simp
  with Inr assms show ?thesis by (simp add: indicators_def and_then_def)
qed

lemma fetch_market_data_propagates:
  assumes "fetch_with_backoff nw (history_url crypto_id) ''GET'' None 3 2
             (print (FetchingMarketData crypto_id) w) = (Inl e, w1)"
  shows "fetch_market_data nw crypto_id w = (Inl e, print (MarketDataError e) w1)"
  using assms by (simp add: fetch_market_data_def market_data_steps_def)

lemma fetch_market_data_short_history:
  assumes "fetch_with_backoff nw (history_url crypto_id) ''GET'' None 3 2
             (print (FetchingMarketData crypto_id) w) = (Inr history_response, w1)"
    and "body history_response = Some history_data"
    and "item history_data ''prices'' = Inr (JArr rows)"
    and "length rows < 20"
  shows "\<exists>e w'. fetch_market_data nw crypto_id w = (Inl e, w')"
proof -
  obtain r2 w2 where p: "fetch_with_backoff nw (price_url crypto_id) ''GET'' None 3 2 w1 = (r2, w2)"
    by (cases "fetch_with_backoff nw (price_url crypto_id) ''GET'' None 3 2 w1")
  show ?thesis
  proof (cases r2)
    case (Inl e)
    with assms p show ?thesis
      by (simp add: fetch_market_data_def market_data_steps_def response_json_def)
  next
    case (Inr price_response)
    show ?thesis
    proof (cases "body price_response")
      case None
      with Inr assms p show ?thesis
        by (simp add: fetch_market_data_def market_data_steps_def response_json_def)
    next
      case (Some price_data)
      from short_history_no_indicators[OF assms(3,4)] obtain e where
        "indicators crypto_id history_data price_data = Inl e" by blast
      with Some Inr assms p show ?thesis
        by (simp add: fetch_market_data_def market_data_steps_def response_json_def)
    qed
  qed
qed

lemma not_found_three_times:
  assumes "\<forall>n. \<exists>r. nw n rq = Replied r \<and> status_code r = 404"
  shows "\<exists>w'. backoff_loop nw rq 3 2 w = (Inl (HTTPError 404), w')"
proof -
  have step: "\<exists>w'. attempt nw rq (Suc left) d w0 = (Inr (Inr (d * 2)), w')" if "0 \<le> d" for left d w0
  proof -
    from assms obtain r where "nw (served w0) rq = Replied r" "status_code r = 404" by blast
    with that show ?thesis
      by (simp add: attempt_def send_def raise_for_status_def on_request_exception_def sleep_def)
  qed
  have final: "\<exists>w'. attempt nw rq 0 d w0 = (Inl (HTTPError 404), w')" for d w0
  proof -
    from assms obtain r where "nw (served w0) rq = Replied r" "status_code r = 404" by blast
    then show ?thesis
      by (simp add: attempt_def send_def raise_for_status_def on_request_exception_def)
  qed
  from step[of 2 1 w] obtain wa where a: "attempt nw rq 2 2 w = (Inr (Inr 4), wa)" 
    by (auto simp: eval_nat_numeral)
  from step[of 4 0 wa] obtain wb where b: "attempt nw rq 1 4 wa = (Inr (Inr 8), wb)" by auto
  from final[of 8 wb] obtain wc where c: "attempt nw rq 0 8 wb = (Inl (HTTPError 404), wc)" by auto
  have "backoff_loop nw rq (Suc (Suc (Suc 0))) 2 w = (Inl (HTTPError 404), wc)"
    using a b c by (simp add: eval_nat_numeral)
  then show ?thesis by (auto simp: eval_nat_numeral)
qed

text \<open>
  Claim C8. \<open>fetch_market_data\<close> raises whenever the price table of the history
  document has fewer than 20 rows, or fewer than 15; an exception of the history fetch
  is raised again unchanged after it was printed; and when the provider answers the
  history request with 404 every time, as it does for an asset id it does not know, the
  function raises the HTTP error 404 of the client.
\<close>

theorem fetch_market_data_failures:
  "(\<forall>history_response w1 history_data rows.
      fetch_with_backoff nw (history_url crypto_id) ''GET'' None 3 2
          (print (FetchingMarketData crypto_id) w) = (Inr history_response, w1)
      \<and> body history_response = Some history_data
      \<and> item history_data ''prices'' = Inr (JArr rows)
      \<and> (length rows < 20 \<or> length rows < 15)
      \<longrightarrow> (\<exists>e w'. fetch_market_data nw crypto_id w = (Inl e, w')))
   \<and> (\<forall>e w1.
      fetch_with_backoff nw (history_url crypto_id) ''GET'' None 3 2
          (print (FetchingMarketData crypto_id) w) = (Inl e, w1)
      \<longrightarrow> fetch_market_data nw crypto_id w = (Inl e, print (MarketDataError e) w1))
   \<and> ((\<forall>n. \<exists>r. nw n (make_request (history_url crypto_id) ''GET'' None) = Replied r
              \<and> status_code r = 404)
      \<longrightarrow> fst (fetch_market_data nw crypto_id w) = Inl (HTTPError 404))"
proof (intro conjI allI impI)
  fix history_response w1 history_data rows
  assume h: "fetch_with_backoff nw (history_url crypto_id) ''GET'' None 3 2
          (print (FetchingMarketData crypto_id) w) = (Inr history_response, w1)
      \<and> body history_response = Some history_data
      \<and> item history_data ''prices'' = Inr (JArr rows)
      \<and> (length rows < 20 \<or> length rows < 15)"
  then have "length rows < 20" by auto
  with h show "\<exists>e w'. fetch_market_data nw crypto_id w = (Inl e, w')"
    by (intro fetch_market_data_short_history[where rows=rows]) auto
next
  fix e w1
  assume "fetch_with_backoff nw (history_url crypto_id) ''GET'' None 3 2
          (print (FetchingMarketData crypto_id) w) = (Inl e, w1)"
  then show "fetch_market_data nw crypto_id w = (Inl e, print (MarketDataError e) w1)"
    by (rule fetch_market_data_propagates)
next
  assume "\<forall>n. \<exists>r. nw n (make_request (history_url crypto_id) ''GET'' None) = Replied r
              \<and> status_code r = 404"
  from not_found_three_times[where nw=nw and rq="make_request (history_url crypto_id) ''GET'' None"
      and w="print (FetchingMarketData crypto_id) w", OF this]
  obtain w' where "fetch_with_backoff nw (history_url crypto_id) ''GET'' None 3 2
          (print (FetchingMarketData crypto_id) w) = (Inl (HTTPError 404), w')"
    by (auto simp: fetch_with_backoff_def)
  from fetch_market_data_propagates[OF this]
  show "fst (fetch_market_data nw crypto_id w) = Inl (HTTPError 404)" by simp
qed

lemma fetch_market_data_snapshot:
  assumes "fetch_market_data nw crypto_id w = (Inr t, w')"
  shows "\<exists>history_response w1 history_data prices closes.
           fetch_with_backoff nw (history_url crypto_id) ''GET'' None 3 2
              (print (FetchingMarketData crypto_id) w) = (Inr history_response, w1)
         \<and> response_json history_response = Inr history_data
         \<and> item history_data ''prices'' = Inr prices \<and> close_column prices = Inr closes
         \<and> latest_sma_of closes = Inr (latest_sma t) \<and> latest_rsi_of closes = Inr (latest_rsi t)"
  using assms
  by (auto simp: fetch_market_data_def market_data_steps_def indicators_def and_then_def
      split: prod.splits sum.splits)

lemma served_print: "served (print m w) = served w"
  by (simp add: print_def emit_def)

text \<open>
  Claim C8, three instances: a history of two rows, a network that fails every request,
  and a provider that answers 404.
\<close>

theorem fetch_market_data_failures_witness:
  "(\<exists>e w'. fetch_market_data (always (json_reply short_history)) ''bitcoin'' fresh = (Inl e, w'))
   \<and> fetch_market_data (always Failed) ''bitcoin'' fresh
       = (Inl ConnectionFailure,
          print (MarketDataError ConnectionFailure)
            (snd (fetch_with_backoff (always Failed) (history_url ''bitcoin'') ''GET'' None 3 2
               (print (FetchingMarketData ''bitcoin'') fresh))))
   \<and> fst (fetch_market_data (always (reply 404)) ''bitcoin'' fresh) = Inl (HTTPError 404)"
proof -
  let ?w = "print (FetchingMarketData ''bitcoin'') fresh"
  obtain w1 where a: "fetch_with_backoff (always (json_reply short_history)) (history_url ''bitcoin'')
        ''GET'' None 3 2 ?w = (Inr \<lparr>status_code = 200, body = Some short_history\<rparr>, w1)"
    by (simp add: fetch_with_backoff_def eval_nat_numeral attempt_def send_def always_def
        json_reply_def raise_for_status_def)
  have b: "body \<lparr>status_code = 200, body = Some short_history\<rparr> = Some short_history" by simp
  have c: "item short_history ''prices'' = Inr (JArr [JArr [JNum 1700000000000, JNum 100],
                              JArr [JNum 1700086400000, JNum 101]])"
    by (simp add: short_history_def)
  have d: "length [JArr [JNum 1700000000000, JNum 100], JArr [JNum 1700086400000, JNum 101]] < 20
         \<or> length [JArr [JNum 1700000000000, JNum 100], JArr [JNum 1700086400000, JNum 101]] < 15"
    by simp
  obtain w2 where e: "fetch_with_backoff (always Failed) (history_url ''bitcoin'') ''GET'' None 3 2 ?w
      = (Inl ConnectionFailure, w2)"
    by (simp add: fetch_with_backoff_def eval_nat_numeral attempt_def send_def always_def
        on_request_exception_def sleep_def)
  have f: "\<forall>n. \<exists>r. always (reply 404) n (make_request (history_url ''bitcoin'') ''GET'' None) = Replied r
      \<and> status_code r = 404"
    by (simp add: always_def reply_def)
  note t = fetch_market_data_failures[where crypto_id="''bitcoin''" and w=fresh]
  from t[where nw="always (json_reply short_history)"] a b c d
  have 1: "\<exists>e w'. fetch_market_data (always (json_reply short_history)) ''bitcoin'' fresh = (Inl e, w')"
    by blast
  from t[where nw="always Failed"] e
  have 2: "fetch_market_data (always Failed) ''bitcoin'' fresh
       = (Inl ConnectionFailure, print (MarketDataError ConnectionFailure) w2)"
    by blast
  from t[where nw="always (reply 404)"] f
  have 3: "fst (fetch_market_data (always (reply 404)) ''bitcoin'' fresh) = Inl (HTTPError 404)"
    by blast
  from 1 2 3 e show ?thesis by simp
qed

section \<open>Facts about the analysis pipeline\<close>

lemma quiet_refl: "quiet w w"
  by (simp add: quiet_def)

lemma quiet_trans: "quiet a b \<Longrightarrow> quiet b c \<Longrightarrow> quiet a c"
  by (auto simp: quiet_def)

lemma quiet_print: "\<not> report_message (Printed m) \<Longrightarrow> quiet w (print m w)"
  by (simp add: quiet_def print_def emit_def)

lemma quiet_since: "quiet w w' \<Longrightarrow> filter report_message (since w w') = []"
  by (auto simp: quiet_def since_def)

lemma quiet_attempt: "attempt nw rq left d w = (res, w') \<Longrightarrow> quiet w w'"
  by (auto simp: quiet_def attempt_def send_def emit_def print_def sleep_def
        on_request_exception_def raise_for_status_def
      split: outcome.splits if_splits sum.splits prod.splits)

lemma quiet_backoff_loop: "quiet w (snd (backoff_loop nw rq n d w))"
proof (induction n arbitrary: d w)
  case 0
  show ?case by (simp add: quiet_refl)
next
  case (Suc n)
  obtain res w1 where a: "attempt nw rq n d w = (res, w1)" by (cases "attempt nw rq n d w")
  from quiet_attempt[OF a] have q: "quiet w w1" .
  show ?case
  proof (cases res)
    case (Inl e)
    with a q show ?thesis by simp
  next
    case (Inr x)
    show ?thesis
    proof (cases x)
      case (Inl r)
      with Inr a q show ?thesis by simp
    next
      case (Inr d')
      with \<open>res = Inr x\<close> a have "backoff_loop nw rq (Suc n) d w = backoff_loop nw rq n d' w1"
        by simp
      with quiet_trans[OF q Suc.IH[of w1 d']] show ?thesis by simp
    qed
  qed
qed

lemma quiet_fetch: "quiet w (snd (fetch_with_backoff nw u meth payload retries delay w))"
  by (simp add: fetch_with_backoff_def quiet_backoff_loop)

lemma quiet_fetch_eq: "fetch_with_backoff nw u meth payload retries delay w = (r, w') \<Longrightarrow> quiet w w'"
  using quiet_fetch[of w nw u meth payload retries delay] by simp

lemma quiet_call_gemini:
  "call_gemini_api nw api_key user_prompt system_prompt tools schema w = (r, w') \<Longrightarrow> quiet w w'"
  by (auto simp: call_gemini_api_def quiet_refl split: option.splits if_splits prod.splits sum.splits
      dest: quiet_fetch_eq)

lemma quiet_fetch_market_data:
  assumes "fetch_market_data nw crypto_id w = (r, w')"
  shows "quiet w w'"
proof -
  let ?w0 = "print (FetchingMarketData crypto_id) w"
  have q0: "quiet w ?w0" by (intro quiet_print) simp
  obtain r1 w1 where m: "market_data_steps nw crypto_id ?w0 = (r1, w1)"
    by (cases "market_data_steps nw crypto_id ?w0")
  have "quiet ?w0 w1"
    using m
    by (auto simp: market_data_steps_def quiet_refl split: prod.splits sum.splits
        dest!: quiet_fetch_eq intro: quiet_trans)
  with q0 have q1: "quiet w w1" by (rule quiet_trans)
  show ?thesis
  proof (cases r1)
    case (Inl e)
    with m assms have "w' = print (MarketDataError e) w1" by (simp add: fetch_market_data_def)
    moreover have "quiet w1 (print (MarketDataError e) w1)" by (intro quiet_print) simp
    ultimately show ?thesis using q1 by (auto intro: quiet_trans)
  next
    case (Inr t)
    with m assms have "w' = w1" by (simp add: fetch_market_data_def)
    with q1 show ?thesis by simp
  qed
qed

lemma quiet_fetch_news_sentiment:
  assumes "fetch_news_sentiment nw api_key crypto_name w = (r, w')"
  shows "quiet w w'"
proof -
  let ?w0 = "print (FetchingNews crypto_name) w"
  have q0: "quiet w ?w0" by (intro quiet_print) simp
  obtain r1 w1 where c: "call_gemini_api nw api_key (news_prompt crypto_name) None (Some search_tools) None ?w0 = (r1, w1)"
    by (cases "call_gemini_api nw api_key (news_prompt crypto_name) None (Some search_tools) None ?w0")
  from quiet_call_gemini[OF c] q0 have q1: "quiet w w1" by (auto intro: quiet_trans)
  have w: "w' = w1 \<or> (\<exists>e. w' = print (NewsWarning e) w1)"
    using assms c by (auto simp: fetch_news_sentiment_def split: sum.splits)
  moreover have "quiet w1 (print (NewsWarning e) w1)" for e by (intro quiet_print) simp
  ultimately show ?thesis using q1 by (auto intro: quiet_trans)
qed

text \<open>
  Claim C7. Let a run reach the analysis step and let the reply of the model carry a
  text that \<open>json.loads\<close> rejects. Then \<open>get_ai_analysis\<close> raises
  \<open>JSONDecodeError\<close>, which is neither an exception of the HTTP layer nor its
  exhaustion error; it issues no request after the one call of the model, so nothing is
  retried; and \<open>run_analysis\<close> ends by printing the error, having printed no line of
  the technical-data section nor of the analyst-report section.
\<close>

theorem invalid_json_stops_report:
  assumes typed: "strip (lower typed) \<noteq> []"
      "resolve (strip (lower typed)) = (coin_id, crypto_name)"
    and market: "fetch_market_data nw coin_id (print (Analyzing crypto_name) w) = (Inr tech, w1)"
    and news: "fetch_news_sentiment nw api_key crypto_name w1 = (news_sentiment, w2)"
    and price: "format_2f (current_price tech) = Inr price"
    and reply: "call_gemini_api nw api_key
                  (analysis_prompt crypto_name price (latest_sma tech) (latest_rsi tech) news_sentiment)
                  (Some analyst_system_prompt) None (Some report_schema)
                  (print ConsultingAnalyst w2) = (Inr response_part, w3)"
    and part: "item response_part ''text'' = Inr (JStr s)"
    and invalid: "loads s = None"
  shows "get_ai_analysis nw loads api_key crypto_name tech news_sentiment w2
           = (Inl JSONDecodeError, print (RawResponse (JStr s)) (print InvalidJson w3))
       \<and> \<not> is_request_exception JSONDecodeError \<and> JSONDecodeError \<noteq> FetchExhausted
       \<and> served (snd (get_ai_analysis nw loads api_key crypto_name tech news_sentiment w2)) = served w3
       \<and> run_analysis nw loads api_key typed w
           = print (RunError JSONDecodeError) (print (RawResponse (JStr s)) (print InvalidJson w3))
       \<and> filter report_message (since w (run_analysis nw loads api_key typed w)) = []"
proof -
  let ?wf = "print (RawResponse (JStr s)) (print InvalidJson w3)"
  have g: "get_ai_analysis nw loads api_key crypto_name tech news_sentiment w2 = (Inl JSONDecodeError, ?wf)"
    using price reply part invalid by (simp add: get_ai_analysis_def)
  have s: "served ?wf = served w3" by (simp add: served_print)
  have r: "run_analysis nw loads api_key typed w = print (RunError JSONDecodeError) ?wf"
    using typed market news g by (simp add: run_analysis_def analysis_steps_def Let_def)
  have q1: "quiet w (print (Analyzing crypto_name) w)" by (intro quiet_print) simp
  have q2: "quiet (print (Analyzing crypto_name) w) w1" using market by (rule quiet_fetch_market_data)
  have q3: "quiet w1 w2" using news by (rule quiet_fetch_news_sentiment)
  have q4: "quiet w2 (print ConsultingAnalyst w2)" by (intro quiet_print) simp
  have q5: "quiet (print ConsultingAnalyst w2) w3" using reply by (rule quiet_call_gemini)
  have q6: "quiet w3 (print InvalidJson w3)" by (intro quiet_print) simp
  have q7: "quiet (print InvalidJson w3) ?wf" by (intro quiet_print) simp
  have q8: "quiet ?wf (print (RunError JSONDecodeError) ?wf)" by (intro quiet_print) simp
  note quiet_trans[OF q1 q2]
  note quiet_trans[OF this q3]
  note quiet_trans[OF this q4]
  note quiet_trans[OF this q5]
  note quiet_trans[OF this q6]
  note quiet_trans[OF this q7]
  note quiet_trans[OF this q8]
  then have "quiet w (run_analysis nw loads api_key typed w)" unfolding r .
  from quiet_since[OF this] g s r show ?thesis by simp
qed

lemma missing_key_invalid_structure:
  "map_of kvs ''candidates'' = None \<Longrightarrow>
     content_part_of (JObj kvs) = Inl (InvalidResponseStructure (JObj kvs))"
  "map_of kvs ''candidates'' = Some (JArr (JObj cand # others)) \<Longrightarrow> map_of cand ''content'' = None \<Longrightarrow>
     content_part_of (JObj kvs) = Inl (InvalidResponseStructure (JObj kvs))"
  "map_of kvs ''candidates'' = Some (JArr (JObj cand # others)) \<Longrightarrow>
   map_of cand ''content'' = Some (JObj content) \<Longrightarrow> map_of content ''parts'' = None \<Longrightarrow>
     content_part_of (JObj kvs) = Inl (InvalidResponseStructure (JObj kvs))"
  by (simp_all add: content_part_of_def and_then_def)

lemma missing_text_invalid_structure:
  assumes "map_of kvs ''candidates'' = Some (JArr (JObj cand # others))"
    "map_of cand ''content'' = Some (JObj content)"
    "map_of content ''parts'' = Some (JArr (JObj part # others'))"
    "map_of part ''text'' = None"
  shows "content_part_of (JObj kvs) = Inl (InvalidResponseStructure (JObj kvs))"
proof -
  from assms(4) have "''text'' \<notin> fst ` set part" by (simp add: map_of_eq_None_iff)
  with assms(1-3) show ?thesis by (simp add: content_part_of_def and_then_def)
qed

text \<open>
  Claim C10 fails on the code: for a reply whose \<open>candidates\<close> list is present and
  empty, and for one whose \<open>parts\<close> list is present and empty, the extraction of lines
  105 and 106 raises \<open>IndexError\<close>, not the dedicated exception of line 109, and
  \<open>call_gemini_api\<close> lets it through.
\<close>

theorem empty_candidates_index_error:
  "content_part_of (JObj [(''candidates'', JArr [])]) = Inl IndexError
 \<and> content_part_of (JObj [(''candidates'', JArr [JObj [(''content'', JObj [(''parts'', JArr [])])]])])
     = Inl IndexError
 \<and> fst (call_gemini_api (always (json_reply (JObj [(''candidates'', JArr [])]))) (Some ''key'')
           (news_prompt ''Bitcoin'') None (Some search_tools) None fresh) = Inl IndexError"
  by (simp add: content_part_of_def and_then_def call_gemini_api_def fetch_with_backoff_def
      eval_nat_numeral attempt_def send_def always_def json_reply_def raise_for_status_def
      response_json_def)

text \<open>
  Claim C3, as amended. Whatever exception the call of the model raises, and whatever
  exception reading the text of its reply raises, \<open>fetch_news_sentiment\<close> prints a
  warning and returns the fixed string \<open>News sentiment could not be retrieved.\<close>; when
  neither raises, it returns the text field of the reply as it is. The function never
  raises.
\<close>

theorem news_failure_recovered:
  "(\<forall>e w'. call_gemini_api nw api_key (news_prompt crypto_name) None (Some search_tools) None
               (print (FetchingNews crypto_name) w) = (Inl e, w')
      \<longrightarrow> fetch_news_sentiment nw api_key crypto_name w
            = (JStr ''News sentiment could not be retrieved.'', print (NewsWarning e) w'))
 \<and> (\<forall>response_part e w'. call_gemini_api nw api_key (news_prompt crypto_name) None (Some search_tools) None
               (print (FetchingNews crypto_name) w) = (Inr response_part, w')
          \<and> item response_part ''text'' = Inl e
      \<longrightarrow> fetch_news_sentiment nw api_key crypto_name w
            = (JStr ''News sentiment could not be retrieved.'', print (NewsWarning e) w'))
 \<and> (\<forall>response_part t w'. call_gemini_api nw api_key (news_prompt crypto_name) None (Some search_tools) None
               (print (FetchingNews crypto_name) w) = (Inr response_part, w')
          \<and> item response_part ''text'' = Inr t
      \<longrightarrow> fetch_news_sentiment nw api_key crypto_name w = (t, w'))"
proof (intro conjI allI impI)
  fix e w'
  assume "call_gemini_api nw api_key (news_prompt crypto_name) None (Some search_tools) None
            (print (FetchingNews crypto_name) w) = (Inl e, w')"
  then show "fetch_news_sentiment nw api_key crypto_name w
      = (JStr ''News sentiment could not be retrieved.'', print (NewsWarning e) w')"
    by (simp add: fetch_news_sentiment_def news_fallback_def)
next
  fix response_part e w'
  assume "call_gemini_api nw api_key (news_prompt crypto_name) None (Some search_tools) None
            (print (FetchingNews crypto_name) w) = (Inr response_part, w')
          \<and> item response_part ''text'' = Inl e"
  then show "fetch_news_sentiment nw api_key crypto_name w
      = (JStr ''News sentiment could not be retrieved.'', print (NewsWarning e) w')"
    by (simp add: fetch_news_sentiment_def news_fallback_def)
next
  fix response_part t w'
  assume "call_gemini_api nw api_key (news_prompt crypto_name) None (Some search_tools) None
            (print (FetchingNews crypto_name) w) = (Inr response_part, w')
          \<and> item response_part ''text'' = Inr t"
  then show "fetch_news_sentiment nw api_key crypto_name w = (t, w')"
    by (simp add: fetch_news_sentiment_def)
qed

lemma pair_of_fst: "fst p = a \<Longrightarrow> p = (a, snd p)"
  by auto

text \<open>
  Claim C7, an instance: the input \<open>btc\<close>, a provider that serves twenty prices
  and a spot price, and a model that answers the analysis request with \<open>not json\<close>.
\<close>

theorem invalid_json_stops_report_witness:
  "filter report_message (since fresh (run_analysis pipeline_net sample_loads (Some ''key'') ''btc'' fresh)) = []
 \<and> fst (get_ai_analysis pipeline_net sample_loads (Some ''key'') ''Bitcoin''
       \<lparr>current_price = JNum 20, latest_sma = Fin (21 / 2), latest_rsi = Fin 100\<rparr>
       (JStr ''Sentiment is positive.'')
       (snd (fetch_news_sentiment pipeline_net (Some ''key'') ''Bitcoin''
         (snd (fetch_market_data pipeline_net ''bitcoin'' (print (Analyzing ''Bitcoin'') fresh))))))
     = Inl JSONDecodeError"
proof -
  let ?tech = "\<lparr>current_price = JNum 20, latest_sma = Fin (21 / 2), latest_rsi = Fin 100\<rparr>"
  let ?w1 = "snd (fetch_market_data pipeline_net ''bitcoin'' (print (Analyzing ''Bitcoin'') fresh))"
  let ?w2 = "snd (fetch_news_sentiment pipeline_net (Some ''key'') ''Bitcoin'' ?w1)"
  let ?call = "call_gemini_api pipeline_net (Some ''key'')
                  (analysis_prompt ''Bitcoin'' 20 (latest_sma ?tech) (latest_rsi ?tech)
                     (JStr ''Sentiment is positive.''))
                  (Some analyst_system_prompt) None (Some report_schema)
                  (print ConsultingAnalyst ?w2)"
  have a: "strip (lower ''btc'') \<noteq> []" by code_simp
  have b: "resolve (strip (lower ''btc'')) = (''bitcoin'', ''Bitcoin'')" by code_simp
  have "fst (fetch_market_data pipeline_net ''bitcoin'' (print (Analyzing ''Bitcoin'') fresh)) = Inr ?tech"
    by code_simp
  then have c: "fetch_market_data pipeline_net ''bitcoin'' (print (Analyzing ''Bitcoin'') fresh)
      = (Inr ?tech, ?w1)" by (rule pair_of_fst)
  have "fst (fetch_news_sentiment pipeline_net (Some ''key'') ''Bitcoin'' ?w1) = JStr ''Sentiment is positive.''"
    by code_simp
  then have d: "fetch_news_sentiment pipeline_net (Some ''key'') ''Bitcoin'' ?w1
      = (JStr ''Sentiment is positive.'', ?w2)" by (rule pair_of_fst)
  have e: "format_2f (current_price ?tech) = Inr 20" by simp
  have "fst ?call = Inr (JObj [(''text'', JStr ''not json'')])" by code_simp
  then have f: "?call = (Inr (JObj [(''text'', JStr ''not json'')]), snd ?call)" by (rule pair_of_fst)
  have g: "item (JObj [(''text'', JStr ''not json'')]) ''text'' = Inr (JStr ''not json'')" by simp
  have h: "sample_loads ''not json'' = None" by (simp add: sample_loads_def)
  from invalid_json_stops_report[where typed="''btc''" and nw=pipeline_net and w=fresh
      and loads=sample_loads and api_key="Some ''key''" and tech="?tech" and price=20
      and news_sentiment="JStr ''Sentiment is positive.''" and s="''not json''",
      OF a b c d e f g h]
  have 1: "filter report_message
             (since fresh (run_analysis pipeline_net sample_loads (Some ''key'') ''btc'' fresh)) = []"
    by (elim conjE)
  from invalid_json_stops_report[where typed="''btc''" and nw=pipeline_net and w=fresh
      and loads=sample_loads and api_key="Some ''key''" and tech="?tech" and price=20
      and news_sentiment="JStr ''Sentiment is positive.''" and s="''not json''",
      OF a b c d e f g h]
  have 2: "fst (get_ai_analysis pipeline_net sample_loads (Some ''key'') ''Bitcoin'' ?tech
             (JStr ''Sentiment is positive.'') ?w2) = Inl JSONDecodeError"
    by (elim conjE) (simp only: fst_conv)
  from 1 2 show ?thesis by (intro conjI)
qed

text \<open>
  Claim C3 as stated fails: when every request fails, the string returned is
  \<open>News sentiment could not be retrieved.\<close> and not \<open>sentiment unavailable\<close>; and a
  reply whose text field is the number 5 hands the caller that number, not a string.
\<close>

theorem news_fallback_counterexample:
  "fst (fetch_news_sentiment (always Failed) (Some ''key'') ''Bitcoin'' fresh)
     = JStr ''News sentiment could not be retrieved.''
 \<and> fst (fetch_news_sentiment (always Failed) (Some ''key'') ''Bitcoin'' fresh)
     \<noteq> JStr ''sentiment unavailable''
 \<and> fst (fetch_news_sentiment (always (json_reply (model_reply (JNum 5)))) (Some ''key'') ''Bitcoin'' fresh)
     = JNum 5"
  by code_simp

text \<open>
  Claim C3, four instances of the amended statement: a network that fails every request,
  a reply without candidates, a reply whose part is a bare string, and a reply with a
  text.
\<close>

theorem news_failure_recovered_witness:
  "fst (fetch_news_sentiment (always Failed) (Some ''key'') ''Bitcoin'' fresh)
     = JStr ''News sentiment could not be retrieved.''
 \<and> fst (fetch_news_sentiment (always (json_reply (JObj []))) (Some ''key'') ''Bitcoin'' fresh)
     = JStr ''News sentiment could not be retrieved.''
 \<and> fst (fetch_news_sentiment (always (json_reply (JObj [(''candidates'', JArr [JObj [(''content'', JObj [(''parts'', JArr [JStr ''some text''])])]])])))
          (Some ''key'') ''Bitcoin'' fresh)
     = JStr ''News sentiment could not be retrieved.''
 \<and> fst (fetch_news_sentiment pipeline_net (Some ''key'') ''Bitcoin''
         (snd (fetch_market_data pipeline_net ''bitcoin'' (print (Analyzing ''Bitcoin'') fresh))))
     = JStr ''Sentiment is positive.''"
proof -
  let ?w = "print (FetchingNews ''Bitcoin'') fresh"
  let ?c1 = "call_gemini_api (always Failed) (Some ''key'') (news_prompt ''Bitcoin'') None
               (Some search_tools) None ?w"
  let ?n2 = "always (json_reply (JObj []))"
  let ?c2 = "call_gemini_api ?n2 (Some ''key'') (news_prompt ''Bitcoin'') None (Some search_tools) None ?w"
  let ?n3 = "always (json_reply (JObj [(''candidates'', JArr [JObj [(''content'', JObj [(''parts'', JArr [JStr ''some text''])])]])]))"
  let ?c3 = "call_gemini_api ?n3 (Some ''key'') (news_prompt ''Bitcoin'') None (Some search_tools) None ?w"
  let ?w1 = "snd (fetch_market_data pipeline_net ''bitcoin'' (print (Analyzing ''Bitcoin'') fresh))"
  let ?c4 = "call_gemini_api pipeline_net (Some ''key'') (news_prompt ''Bitcoin'') None
               (Some search_tools) None (print (FetchingNews ''Bitcoin'') ?w1)"
  have "fst ?c1 = Inl ConnectionFailure" by code_simp
  then have 1: "?c1 = (Inl ConnectionFailure, snd ?c1)" by (rule pair_of_fst)
  have "fst ?c2 = Inl (InvalidResponseStructure (JObj []))" by code_simp
  then have 2: "?c2 = (Inl (InvalidResponseStructure (JObj [])), snd ?c2)"
    by (rule pair_of_fst)
  have "fst ?c3 = Inr (JStr ''some text'')" by code_simp
  then have 3: "?c3 = (Inr (JStr ''some text''), snd ?c3)" by (rule pair_of_fst)
  have i3: "item (JStr ''some text'') ''text'' = Inl TypeError" by simp
  have "fst ?c4 = Inr (JObj [(''text'', JStr ''Sentiment is positive.'')])" by code_simp
  then have 4: "?c4 = (Inr (JObj [(''text'', JStr ''Sentiment is positive.'')]), snd ?c4)"
    by (rule pair_of_fst)
  have i4: "item (JObj [(''text'', JStr ''Sentiment is positive.'')]) ''text'' = Inr (JStr ''Sentiment is positive.'')"
    by simp
  note t = news_failure_recovered[where api_key="Some ''key''" and crypto_name="''Bitcoin''"]
  from t[where nw="always Failed" and w=fresh, THEN conjunct1, rule_format, OF 1]
  have a: "fst (fetch_news_sentiment (always Failed) (Some ''key'') ''Bitcoin'' fresh)
     = JStr ''News sentiment could not be retrieved.''" by (simp only: fst_conv)
  from t[where nw="?n2" and w=fresh, THEN conjunct1, rule_format, OF 2]
  have b: "fst (fetch_news_sentiment ?n2 (Some ''key'') ''Bitcoin'' fresh)
     = JStr ''News sentiment could not be retrieved.''" by (simp only: fst_conv)
  from t[where nw="?n3" and w=fresh, THEN conjunct2, THEN conjunct1, rule_format, OF conjI, OF 3 i3]
  have c: "fst (fetch_news_sentiment ?n3 (Some ''key'') ''Bitcoin'' fresh)
     = JStr ''News sentiment could not be retrieved.''" by (simp only: fst_conv)
  from t[where nw=pipeline_net and w="?w1", THEN conjunct2, THEN conjunct2, rule_format, OF conjI, OF 4 i4]
  have d: "fst (fetch_news_sentiment pipeline_net (Some ''key'') ''Bitcoin'' ?w1)
     = JStr ''Sentiment is positive.''" by (simp only: fst_conv)
  from a b c d show ?thesis by (intro conjI)
qed

section \<open>The indicators that \<open>fetch_market_data\<close> returns\<close>

lemma close_column_of_numbers:
  "close_column (JArr (map (\<lambda>p. JArr [JNum p, JNum p]) cs)) = Inr (map Fin cs)"
  by (simp add: list_all_iff comp_def)

lemma history_of_prices:
  "item (history_of cs) ''prices'' = Inr (JArr (map (\<lambda>p. JArr [JNum p, JNum p]) cs))"
  by (simp add: history_of_def)

lemma fetch_market_data_kept:
  assumes "fetch_with_backoff nw (history_url crypto_id) ''GET'' None 3 2
             (print (FetchingMarketData crypto_id) w) = (Inr history_response, w1)"
    and "body history_response = Some history_data"
    and "item history_data ''prices'' = Inr prices"
    and "close_column prices = Inr closes"
    and "fetch_market_data nw crypto_id w = (Inr t, w')"
  shows "latest_sma_of closes = Inr (latest_sma t) \<and> latest_rsi_of closes = Inr (latest_rsi t)"
  using assms
  by (auto simp: fetch_market_data_def market_data_steps_def indicators_def and_then_def
        response_json_def
      split: prod.splits sum.splits option.splits)

lemma fetch_market_data_returns:
  assumes "fetch_with_backoff nw (history_url crypto_id) ''GET'' None 3 2
             (print (FetchingMarketData crypto_id) w) = (Inr history_response, w1)"
    and "body history_response = Some history_data"
    and "item history_data ''prices'' = Inr prices"
    and "close_column prices = Inr closes"
    and "fetch_with_backoff nw (price_url crypto_id) ''GET'' None 3 2 w1 = (Inr price_response, w2)"
    and "body price_response = Some price_data"
    and "item price_data crypto_id = Inr entry"
    and "item entry ''usd'' = Inr usd"
    and "latest_sma_of closes = Inr sma"
    and "latest_rsi_of closes = Inr rsi"
  shows "fetch_market_data nw crypto_id w
           = (Inr \<lparr>current_price = usd, latest_sma = sma, latest_rsi = rsi\<rparr>, w2)"
  using assms
  by (simp add: fetch_market_data_def market_data_steps_def indicators_def and_then_def
        response_json_def)

text \<open>
  Claim C4. Let the history fetch of \<open>fetch_market_data\<close> bring a price table of at
  least 20 closing prices. Then the moving average in every snapshot the function
  returns is the arithmetic mean of the last 20 prices; the function does return that
  snapshot as soon as the price fetch brings the spot price and line 153 finds an index;
  and for the prices 1, 2, ..., 20 the moving average returned is 10.5.
\<close>

theorem fetch_market_data_keeps_trailing_mean:
  assumes "fetch_with_backoff nw (history_url crypto_id) ''GET'' None 3 2
             (print (FetchingMarketData crypto_id) w) = (Inr history_response, w1)"
    and "body history_response = Some history_data"
    and "item history_data ''prices'' = Inr prices"
    and "close_column prices = Inr (map Fin cs)"
    and "20 \<le> length cs"
  shows "(\<forall>t w'. fetch_market_data nw crypto_id w = (Inr t, w')
            \<longrightarrow> latest_sma t = Fin (sum_list (drop (length cs - 20) cs) / 20))
       \<and> (\<forall>price_response w2 price_data entry usd rsi.
             fetch_with_backoff nw (price_url crypto_id) ''GET'' None 3 2 w1 = (Inr price_response, w2)
           \<and> body price_response = Some price_data
           \<and> item price_data crypto_id = Inr entry \<and> item entry ''usd'' = Inr usd
           \<and> latest_rsi_of (map Fin cs) = Inr rsi
            \<longrightarrow> fetch_market_data nw crypto_id w
                 = (Inr \<lparr>current_price = usd,
                         latest_sma = Fin (sum_list (drop (length cs - 20) cs) / 20),
                         latest_rsi = rsi\<rparr>, w2))
       \<and> (cs = one_to_twenty
            \<longrightarrow> (\<forall>t w'. fetch_market_data nw crypto_id w = (Inr t, w') \<longrightarrow> latest_sma t = Fin (21 / 2)))"
proof -
  note sma = latest_sma_mean[OF assms(5)]
  have kept: "latest_sma t = Fin (sum_list (drop (length cs - 20) cs) / 20)"
    if "fetch_market_data nw crypto_id w = (Inr t, w')" for t w'
    using fetch_market_data_kept[OF assms(1-4) that] sma by simp
  have returned: "fetch_market_data nw crypto_id w
                 = (Inr \<lparr>current_price = usd,
                         latest_sma = Fin (sum_list (drop (length cs - 20) cs) / 20),
                         latest_rsi = rsi\<rparr>, w2)"
    if "fetch_with_backoff nw (price_url crypto_id) ''GET'' None 3 2 w1 = (Inr price_response, w2)
           \<and> body price_response = Some price_data
           \<and> item price_data crypto_id = Inr entry \<and> item entry ''usd'' = Inr usd
           \<and> latest_rsi_of (map Fin cs) = Inr rsi"
    for price_response w2 price_data entry usd rsi
    using that by (intro fetch_market_data_returns[OF assms(1-4) _ _ _ _ sma]) auto
  have ex: "latest_sma t = Fin (21 / 2)"
    if "cs = one_to_twenty" "fetch_market_data nw crypto_id w = (Inr t, w')" for t w'
    using kept[OF that(2)] that(1) by (simp add: one_to_twenty_def)
  from kept returned ex show ?thesis by blast
qed

text \<open>
  Claim C2, as amended. Let the history fetch of \<open>fetch_market_data\<close> bring a price
  table of at least 20 closing prices. If the prices strictly decrease, the
  relative-strength index in every snapshot the function returns is 0, and the function
  returns that snapshot as soon as the price fetch brings the spot price; if they
  strictly increase, where the average loss is zero and the ratio is an infinity, the
  same holds with the index 100.
\<close>

theorem fetch_market_data_monotone_rsi:
  assumes "fetch_with_backoff nw (history_url crypto_id) ''GET'' None 3 2
             (print (FetchingMarketData crypto_id) w) = (Inr history_response, w1)"
    and "body history_response = Some history_data"
    and "item history_data ''prices'' = Inr prices"
    and "close_column prices = Inr (map Fin cs)"
    and "20 \<le> length cs"
  shows "(sorted_wrt (>) cs \<longrightarrow>
            (\<forall>t w'. fetch_market_data nw crypto_id w = (Inr t, w') \<longrightarrow> latest_rsi t = Fin 0)
          \<and> (\<forall>price_response w2 price_data entry usd.
                 fetch_with_backoff nw (price_url crypto_id) ''GET'' None 3 2 w1 = (Inr price_response, w2)
               \<and> body price_response = Some price_data
               \<and> item price_data crypto_id = Inr entry \<and> item entry ''usd'' = Inr usd
                \<longrightarrow> fetch_market_data nw crypto_id w
                     = (Inr \<lparr>current_price = usd,
                             latest_sma = Fin (sum_list (drop (length cs - 20) cs) / 20),
                             latest_rsi = Fin 0\<rparr>, w2)))
       \<and> (sorted_wrt (<) cs \<longrightarrow>
            (\<forall>t w'. fetch_market_data nw crypto_id w = (Inr t, w') \<longrightarrow> latest_rsi t = Fin 100)
          \<and> (\<forall>price_response w2 price_data entry usd.
                 fetch_with_backoff nw (price_url crypto_id) ''GET'' None 3 2 w1 = (Inr price_response, w2)
               \<and> body price_response = Some price_data
               \<and> item price_data crypto_id = Inr entry \<and> item entry ''usd'' = Inr usd
                \<longrightarrow> fetch_market_data nw crypto_id w
                     = (Inr \<lparr>current_price = usd,
                             latest_sma = Fin (sum_list (drop (length cs - 20) cs) / 20),
                             latest_rsi = Fin 100\<rparr>, w2)))"
proof -
  from assms(5) have l15: "15 \<le> length cs" by simp
  note sma = latest_sma_mean[OF assms(5)]
  note rsi = rsi_of_monotone_series[OF l15]
  have kept: "latest_rsi t = v"
    if "latest_rsi_of (map Fin cs) = Inr v" "fetch_market_data nw crypto_id w = (Inr t, w')" for t w' v
    using fetch_market_data_kept[OF assms(1-4) that(2)] that(1) by simp
  have returned: "fetch_market_data nw crypto_id w
                     = (Inr \<lparr>current_price = usd,
                             latest_sma = Fin (sum_list (drop (length cs - 20) cs) / 20),
                             latest_rsi = v\<rparr>, w2)"
    if "latest_rsi_of (map Fin cs) = Inr v"
       "fetch_with_backoff nw (price_url crypto_id) ''GET'' None 3 2 w1 = (Inr price_response, w2)
               \<and> body price_response = Some price_data
               \<and> item price_data crypto_id = Inr entry \<and> item entry ''usd'' = Inr usd"
    for price_response w2 price_data entry usd v
    using that by (intro fetch_market_data_returns[OF assms(1-4) _ _ _ _ sma]) auto
  show ?thesis
  proof (intro conjI impI allI)
    fix t w'
    assume "sorted_wrt (>) cs" "fetch_market_data nw crypto_id w = (Inr t, w')"
    with rsi kept show "latest_rsi t = Fin 0" by blast
  next
    fix price_response w2 price_data entry usd
    assume "sorted_wrt (>) cs"
      "fetch_with_backoff nw (price_url crypto_id) ''GET'' None 3 2 w1 = (Inr price_response, w2)
               \<and> body price_response = Some price_data
               \<and> item price_data crypto_id = Inr entry \<and> item entry ''usd'' = Inr usd"
    with rsi returned show "fetch_market_data nw crypto_id w
                     = (Inr \<lparr>current_price = usd,
                             latest_sma = Fin (sum_list (drop (length cs - 20) cs) / 20),
                             latest_rsi = Fin 0\<rparr>, w2)" by blast
  next
    fix t w'
    assume "sorted_wrt (<) cs" "fetch_market_data nw crypto_id w = (Inr t, w')"
    with rsi kept show "latest_rsi t = Fin 100" by blast
  next
    fix price_response w2 price_data entry usd
    assume "sorted_wrt (<) cs"
      "fetch_with_backoff nw (price_url crypto_id) ''GET'' None 3 2 w1 = (Inr price_response, w2)
               \<and> body price_response = Some price_data
               \<and> item price_data crypto_id = Inr entry \<and> item entry ''usd'' = Inr usd"
    with rsi returned show "fetch_market_data nw crypto_id w
                     = (Inr \<lparr>current_price = usd,
                             latest_sma = Fin (sum_list (drop (length cs - 20) cs) / 20),
                             latest_rsi = Fin 100\<rparr>, w2)" by blast
  qed
qed

text \<open>
  Claim C6, as amended. Let the history fetch of \<open>fetch_market_data\<close> bring a price
  table of at least 20 closing prices. Then the relative-strength value in every
  snapshot the function returns is the most recent defined value of
  \<open>100 - 100 / (1 + rs)\<close>, \<open>rs\<close> being the ratio of the average of the positive
  per-step deltas to the average of the magnitudes of the negative per-step deltas over
  the trailing 14 steps; the function returns the snapshot with that value as soon as
  the price fetch brings the spot price; and when no value is defined it returns no
  snapshot.
\<close>

theorem fetch_market_data_keeps_recent_index:
  assumes "fetch_with_backoff nw (history_url crypto_id) ''GET'' None 3 2
             (print (FetchingMarketData crypto_id) w) = (Inr history_response, w1)"
    and "body history_response = Some history_data"
    and "item history_data ''prices'' = Inr prices"
    and "close_column prices = Inr (map Fin cs)"
    and "20 \<le> length cs"
  shows "(\<forall>t w'. fetch_market_data nw crypto_id w = (Inr t, w')
            \<longrightarrow> most_recent_index cs = Some (latest_rsi t))
       \<and> (\<forall>price_response w2 price_data entry usd v.
             fetch_with_backoff nw (price_url crypto_id) ''GET'' None 3 2 w1 = (Inr price_response, w2)
           \<and> body price_response = Some price_data
           \<and> item price_data crypto_id = Inr entry \<and> item entry ''usd'' = Inr usd
           \<and> most_recent_index cs = Some v
            \<longrightarrow> fetch_market_data nw crypto_id w
                 = (Inr \<lparr>current_price = usd,
                         latest_sma = Fin (sum_list (drop (length cs - 20) cs) / 20),
                         latest_rsi = v\<rparr>, w2))
       \<and> (most_recent_index cs = None
            \<longrightarrow> (\<forall>t w'. fetch_market_data nw crypto_id w \<noteq> (Inr t, w')))"
proof -
  from assms(5) have l15: "15 \<le> length cs" by simp
  note sma = latest_sma_mean[OF assms(5)]
  note rsi = latest_rsi_refines[OF l15]
  show ?thesis
  proof (intro conjI impI allI)
    fix t w'
    assume "fetch_market_data nw crypto_id w = (Inr t, w')"
    from fetch_market_data_kept[OF assms(1-4) this] rsi
    show "most_recent_index cs = Some (latest_rsi t)"
      by (cases "most_recent_index cs") simp_all
  next
    fix price_response w2 price_data entry usd v
    assume h: "fetch_with_backoff nw (price_url crypto_id) ''GET'' None 3 2 w1 = (Inr price_response, w2)
           \<and> body price_response = Some price_data
           \<and> item price_data crypto_id = Inr entry \<and> item entry ''usd'' = Inr usd
           \<and> most_recent_index cs = Some v"
    with rsi have "latest_rsi_of (map Fin cs) = Inr v" by simp
    with h show "fetch_market_data nw crypto_id w
                 = (Inr \<lparr>current_price = usd,
                         latest_sma = Fin (sum_list (drop (length cs - 20) cs) / 20),
                         latest_rsi = v\<rparr>, w2)"
      by (intro fetch_market_data_returns[OF assms(1-4) _ _ _ _ sma]) auto
  next
    fix t w'
    assume n: "most_recent_index cs = None"
    show "fetch_market_data nw crypto_id w \<noteq> (Inr t, w')"
    proof
      assume "fetch_market_data nw crypto_id w = (Inr t, w')"
      from fetch_market_data_kept[OF assms(1-4) this] rsi n show False by simp
    qed
  qed
qed

text \<open>
  Claim C2 as stated fails: on fifteen strictly decreasing prices, and on fifteen
  strictly increasing ones, \<open>fetch_market_data\<close> raises \<open>IndexError\<close> at line 152,
  since no 20-day average exists, and keeps no index at all.
\<close>

theorem short_monotone_series_counterexample:
  "15 \<le> length falling_prices \<and> sorted_wrt (>) falling_prices
 \<and> fst (fetch_market_data (market_net falling_prices) ''bitcoin'' fresh) = Inl IndexError
 \<and> 15 \<le> length rising_prices \<and> sorted_wrt (<) rising_prices
 \<and> fst (fetch_market_data (market_net rising_prices) ''bitcoin'' fresh) = Inl IndexError"
  by code_simp

text \<open>
  Claim C6 as stated fails: on sixteen prices, for which the most recent defined index
  is 200/3, \<open>fetch_market_data\<close> raises \<open>IndexError\<close> at line 152 and keeps no
  relative-strength value.
\<close>

theorem short_series_index_counterexample:
  "15 \<le> length mixed_prices \<and> most_recent_index mixed_prices = Some (Fin (200 / 3))
 \<and> fst (fetch_market_data (market_net mixed_prices) ''bitcoin'' fresh) = Inl IndexError"
  by code_simp

lemma market_net_history:
  "fst (fetch_with_backoff (market_net cs) (history_url ''bitcoin'') ''GET'' None 3 2
          (print (FetchingMarketData ''bitcoin'') fresh))
     = Inr \<lparr>status_code = 200, body = Some (history_of cs)\<rparr>"
  "served (snd (fetch_with_backoff (market_net cs) (history_url ''bitcoin'') ''GET'' None 3 2
          (print (FetchingMarketData ''bitcoin'') fresh))) = 1"
  by (simp_all add: run_simps json_reply_def market_net_def)

lemma market_net_price:
  assumes "served w1 = 1"
  shows "fst (fetch_with_backoff (market_net cs) (price_url ''bitcoin'') ''GET'' None 3 2 w1)
     = Inr \<lparr>status_code = 200, body = Some price_document\<rparr>"
  using assms
  by (simp add: fetch_with_backoff_def eval_nat_numeral attempt_def send_def script_def
      json_reply_def market_net_def raise_for_status_def)

lemma price_document_usd:
  "item price_document ''bitcoin'' = Inr (JObj [(''usd'', JNum 20)])"
  "item (JObj [(''usd'', JNum 20)]) ''usd'' = Inr (JNum 20)"
  by (simp_all add: price_document_def)

text \<open>
  Claim C4, two instances, run through the whole function: a provider that serves the
  21 prices 100, 1, 2, ..., 20, and one that serves 1, 2, ..., 20.
\<close>

theorem fetch_market_data_keeps_trailing_mean_witness:
  "fst (fetch_market_data (market_net (100 # one_to_twenty)) ''bitcoin'' fresh)
     = Inr \<lparr>current_price = JNum 20, latest_sma = Fin (21 / 2), latest_rsi = Fin 100\<rparr>
 \<and> fst (fetch_market_data (market_net one_to_twenty) ''bitcoin'' fresh)
     = Inr \<lparr>current_price = JNum 20, latest_sma = Fin (21 / 2), latest_rsi = Fin 100\<rparr>"
proof -
  let ?hf = "\<lambda>cs. fetch_with_backoff (market_net cs) (history_url ''bitcoin'') ''GET'' None 3 2
              (print (FetchingMarketData ''bitcoin'') fresh)"
  let ?pf = "\<lambda>cs. fetch_with_backoff (market_net cs) (price_url ''bitcoin'') ''GET'' None 3 2 (snd (?hf cs))"
  have a: "?hf cs = (Inr \<lparr>status_code = 200, body = Some (history_of cs)\<rparr>, snd (?hf cs))" for cs
    by (rule pair_of_fst) (rule market_net_history)
  have b: "body \<lparr>status_code = 200, body = Some (history_of cs)\<rparr> = Some (history_of cs)" for cs
    by simp
  have f: "?pf cs = (Inr \<lparr>status_code = 200, body = Some price_document\<rparr>, snd (?pf cs))" for cs
    by (rule pair_of_fst) (rule market_net_price, rule market_net_history)
  have g: "body \<lparr>status_code = 200, body = Some price_document\<rparr> = Some price_document" by simp
  have e: "20 \<le> length (100 # one_to_twenty)" "20 \<le> length one_to_twenty"
    by (simp_all add: one_to_twenty_def)
  have h: "latest_rsi_of (map Fin (100 # one_to_twenty)) = Inr (Fin 100)"
    "latest_rsi_of (map Fin one_to_twenty) = Inr (Fin 100)"
    by code_simp+
  have s: "sum_list (drop (length (100 # one_to_twenty) - 20) (100 # one_to_twenty)) / 20 = 21 / 2"
    "sum_list (drop (length one_to_twenty - 20) one_to_twenty) / 20 = 21 / 2"
    by (simp_all add: one_to_twenty_def)
  from fetch_market_data_keeps_trailing_mean[OF a b history_of_prices close_column_of_numbers e(1),
      THEN conjunct2, THEN conjunct1, rule_format,
      of _ "snd (?pf (100 # one_to_twenty))" _ _ "JNum 20" "Fin 100"] f g price_document_usd h(1)
  have 1: "fetch_market_data (market_net (100 # one_to_twenty)) ''bitcoin'' fresh
      = (Inr \<lparr>current_price = JNum 20,
              latest_sma = Fin (sum_list (drop (length (100 # one_to_twenty) - 20) (100 # one_to_twenty)) / 20),
              latest_rsi = Fin 100\<rparr>, snd (?pf (100 # one_to_twenty)))"
    by blast
  from fetch_market_data_keeps_trailing_mean[OF a b history_of_prices close_column_of_numbers e(2),
      THEN conjunct2, THEN conjunct1, rule_format,
      of _ "snd (?pf one_to_twenty)" _ _ "JNum 20" "Fin 100"] f g price_document_usd h(2)
  have 2: "fetch_market_data (market_net one_to_twenty) ''bitcoin'' fresh
      = (Inr \<lparr>current_price = JNum 20,
              latest_sma = Fin (sum_list (drop (length one_to_twenty - 20) one_to_twenty) / 20),
              latest_rsi = Fin 100\<rparr>, snd (?pf one_to_twenty))"
    by blast
  from 1 2 show ?thesis unfolding s by simp
qed

text \<open>
  Claim C2, two instances of the amended statement, run through the whole function: the
  prices 20 down to 1 and the prices 1 up to 20.
\<close>

theorem fetch_market_data_monotone_rsi_witness:
  "fst (fetch_market_data (market_net twenty_to_one) ''bitcoin'' fresh)
     = Inr \<lparr>current_price = JNum 20, latest_sma = Fin (21 / 2), latest_rsi = Fin 0\<rparr>
 \<and> fst (fetch_market_data (market_net one_to_twenty) ''bitcoin'' fresh)
     = Inr \<lparr>current_price = JNum 20, latest_sma = Fin (21 / 2), latest_rsi = Fin 100\<rparr>"
proof -
  let ?hf = "\<lambda>cs. fetch_with_backoff (market_net cs) (history_url ''bitcoin'') ''GET'' None 3 2
              (print (FetchingMarketData ''bitcoin'') fresh)"
  let ?pf = "\<lambda>cs. fetch_with_backoff (market_net cs) (price_url ''bitcoin'') ''GET'' None 3 2 (snd (?hf cs))"
  have a: "?hf cs = (Inr \<lparr>status_code = 200, body = Some (history_of cs)\<rparr>, snd (?hf cs))" for cs
    by (rule pair_of_fst) (rule market_net_history)
  have b: "body \<lparr>status_code = 200, body = Some (history_of cs)\<rparr> = Some (history_of cs)" for cs
    by simp
  have f: "?pf cs = (Inr \<lparr>status_code = 200, body = Some price_document\<rparr>, snd (?pf cs))" for cs
    by (rule pair_of_fst) (rule market_net_price, rule market_net_history)
  have g: "body \<lparr>status_code = 200, body = Some price_document\<rparr> = Some price_document" by simp
  have e: "20 \<le> length twenty_to_one" "20 \<le> length one_to_twenty"
    by (simp_all add: twenty_to_one_def one_to_twenty_def)
  have down: "sorted_wrt (>) twenty_to_one" by (simp add: twenty_to_one_def)
  have up: "sorted_wrt (<) one_to_twenty" by (simp add: one_to_twenty_def)
  have s: "sum_list (drop (length twenty_to_one - 20) twenty_to_one) / 20 = 21 / 2"
    "sum_list (drop (length one_to_twenty - 20) one_to_twenty) / 20 = 21 / 2"
    by (simp_all add: twenty_to_one_def one_to_twenty_def)
  from fetch_market_data_monotone_rsi[OF a b history_of_prices close_column_of_numbers e(1),
      THEN conjunct1, rule_format, OF down, THEN conjunct2, rule_format,
      of _ "snd (?pf twenty_to_one)" _ _ "JNum 20"] f g price_document_usd
  have 1: "fetch_market_data (market_net twenty_to_one) ''bitcoin'' fresh
      = (Inr \<lparr>current_price = JNum 20,
              latest_sma = Fin (sum_list (drop (length twenty_to_one - 20) twenty_to_one) / 20),
              latest_rsi = Fin 0\<rparr>, snd (?pf twenty_to_one))"
    by blast
  from fetch_market_data_monotone_rsi[OF a b history_of_prices close_column_of_numbers e(2),
      THEN conjunct2, rule_format, OF up, THEN conjunct2, rule_format,
      of _ "snd (?pf one_to_twenty)" _ _ "JNum 20"] f g price_document_usd
  have 2: "fetch_market_data (market_net one_to_twenty) ''bitcoin'' fresh
      = (Inr \<lparr>current_price = JNum 20,
              latest_sma = Fin (sum_list (drop (length one_to_twenty - 20) one_to_twenty) / 20),
              latest_rsi = Fin 100\<rparr>, snd (?pf one_to_twenty))"
    by blast
  from 1 2 show ?thesis unfolding s by simp
qed

lemma zigzag_index: "most_recent_index zigzag_prices = Some (Fin (200 / 3))"
  by code_simp

text \<open>
  Claim C6, an instance of the amended statement, run through the whole function:
  twenty prices that rise by 2 and fall by 1 in turn.
\<close>

theorem fetch_market_data_keeps_recent_index_witness:
  "fst (fetch_market_data (market_net zigzag_prices) ''bitcoin'' fresh)
     = Inr \<lparr>current_price = JNum 20, latest_sma = Fin (31 / 2), latest_rsi = Fin (200 / 3)\<rparr>"
proof -
  let ?cs = zigzag_prices
  let ?h = "fetch_with_backoff (market_net ?cs) (history_url ''bitcoin'') ''GET'' None 3 2
              (print (FetchingMarketData ''bitcoin'') fresh)"
  let ?p = "fetch_with_backoff (market_net ?cs) (price_url ''bitcoin'') ''GET'' None 3 2 (snd ?h)"
  have a: "?h = (Inr \<lparr>status_code = 200, body = Some (history_of ?cs)\<rparr>, snd ?h)"
    by (rule pair_of_fst) (rule market_net_history)
  have b: "body \<lparr>status_code = 200, body = Some (history_of ?cs)\<rparr> = Some (history_of ?cs)" by simp
  have e: "20 \<le> length ?cs" by (simp add: zigzag_prices_def)
  have f: "?p = (Inr \<lparr>status_code = 200, body = Some price_document\<rparr>, snd ?p)"
    by (rule pair_of_fst) (rule market_net_price, rule market_net_history)
  have g: "body \<lparr>status_code = 200, body = Some price_document\<rparr> = Some price_document" by simp
  have s: "sum_list (drop (length ?cs - 20) ?cs) / 20 = 31 / 2" by (simp add: zigzag_prices_def)
  from fetch_market_data_keeps_recent_index[OF a b history_of_prices close_column_of_numbers e,
      THEN conjunct2, THEN conjunct1, rule_format,
      of _ "snd ?p" _ _ "JNum 20" "Fin (200 / 3)"] f g price_document_usd zigzag_index
  have "fetch_market_data (market_net ?cs) ''bitcoin'' fresh
      = (Inr \<lparr>current_price = JNum 20,
              latest_sma = Fin (sum_list (drop (length ?cs - 20) ?cs) / 20),
              latest_rsi = Fin (200 / 3)\<rparr>, snd ?p)"
    by blast
  then show ?thesis unfolding s by simp
qed

text \<open>
  Claim C1 fails on the code. With the default three attempts and delay of two seconds,
  a 404 on the first attempt is not raised: the call sleeps two seconds, requests again
  and returns the second reply; and when every reply is a 404 the call requests three
  times and sleeps two and four seconds before it raises. The \<open>HTTPError\<close> that
  \<open>raise_for_status\<close> raises at line 59 is a \<open>RequestException\<close> and is caught
  by the handler of line 62.
\<close>

theorem not_found_is_retried:
  "fetch_with_backoff (script [reply 404] (reply 200)) example_url ''GET'' None 3 2 fresh
     = (Inr \<lparr>status_code = 200, body = None\<rparr>,
        \<lparr>served = 2,
         journal = [Requested \<lparr>verb = GET, url = example_url, json_payload = None\<rparr>,
                    Slept 2,
                    Requested \<lparr>verb = GET, url = example_url, json_payload = None\<rparr>]\<rparr>)
   \<and> fetch_with_backoff (always (reply 404)) example_url ''GET'' None 3 2 fresh
     = (Inl (HTTPError 404),
        \<lparr>served = 3,
         journal = [Requested \<lparr>verb = GET, url = example_url, json_payload = None\<rparr>,
                    Slept 2,
                    Requested \<lparr>verb = GET, url = example_url, json_payload = None\<rparr>,
                    Slept 4,
                    Requested \<lparr>verb = GET, url = example_url, json_payload = None\<rparr>,
                    Printed (FetchFailed (HTTPError 404))]\<rparr>)"
  by (simp add: run_simps fresh_def)

lemma not_modified_is_returned:
  "fetch_with_backoff (always (reply 304)) example_url ''GET'' None 3 2 fresh
     = (Inr \<lparr>status_code = 304, body = None\<rparr>,
        \<lparr>served = 1,
         journal = [Requested \<lparr>verb = GET, url = example_url, json_payload = None\<rparr>]\<rparr>)"
  by (simp add: run_simps fresh_def)

lemma client_error_is_retried:
  assumes "nw (served w) rq = Replied r" "400 \<le> status_code r" "status_code r < 500"
    "status_code r \<noteq> 429" "0 \<le> d"
  shows "attempt nw rq (Suc left) d w =
     (Inr (Inr (d * 2)),
      \<lparr>served = Suc (served w), journal = journal w @ [Requested rq, Slept d]\<rparr>)"
  using assms
  by (simp add: attempt_def send_def emit_def sleep_def on_request_exception_def
        raise_for_status_def)

end
